theory Spec2Isabelle
  imports Complex_Main "HOL-Library.Signed_Division"
begin

section \<open>Numbers, vectors and colours\<close>

text \<open>
  The engine computes with JavaScript numbers, which are IEEE 754 doubles. Unless said
  otherwise they are modelled as exact reals: every number of a run is taken to be
  finite, and rounding is not modelled. Rounding is modelled where a property turns on
  it: in the colours of the floor and the ceiling, in the sum whose parity chooses
  between them, and in the ray caster in double arithmetic, which stands beside the ray
  caster in exact arithmetic. Where the source divides, the model says what the source
  does for a zero divisor whenever that division can be reached; where the source reads
  an array out of range, the model returns \<open>None\<close> for JavaScript's \<open>undefined\<close>.

  The fields \<open>x\<close>, \<open>y\<close>, \<open>z\<close> of the vectors and \<open>r\<close>, \<open>g\<close>, \<open>b\<close>, \<open>a\<close> of a colour
  are written \<open>vx\<close>, \<open>vy\<close>, \<open>wx\<close>, \<open>wy\<close>, \<open>wz\<close> and \<open>red\<close>, \<open>green\<close>, \<open>blue\<close>,
  \<open>alpha\<close>. The vector methods mutate their receiver and return it; here each one
  returns the new vector.
\<close>

definition EPS :: real where "EPS = 1 / 1000000"
definition NEAR_CLIPPING_PLANE :: real where "NEAR_CLIPPING_PLANE = 0.1"
definition FAR_CLIPPING_PLANE :: real where "FAR_CLIPPING_PLANE = 10.0"
definition FOV :: real where "FOV = pi * 0.5"
definition HALF_FOV_COS :: real where "HALF_FOV_COS = cos (FOV * 0.5)"
definition PLAYER_SPEED :: real where "PLAYER_SPEED = 2"
definition MINIMAP_PLAYER_SIZE :: real where "MINIMAP_PLAYER_SIZE = 0.5"

datatype RGBA = RGBA (red: real) (green: real) (blue: real) (alpha: real)

datatype Vector2 = Vector2 (vx: real) (vy: real)

datatype Vector3 = Vector3 (wx: real) (wy: real) (wz: real)

text \<open>
  Modelled from the spec: \<open>vector.js\<close> is not among the sources. \<open>setPolar\<close> is the
  spec's \<open>setAngle(\<theta>, len) = (cos \<theta> \<cdot> len, sin \<theta> \<cdot> len)\<close>, with the length 1 where the
  engine passes none; the other methods are as in the \<open>Vector2\<close> and \<open>Vector3\<close> classes
  of the earlier single-file version of the engine.
\<close>

definition setPolar :: "real \<Rightarrow> real \<Rightarrow> Vector2" where
  "setPolar angle len = Vector2 (cos angle * len) (sin angle * len)"

definition add2 :: "Vector2 \<Rightarrow> Vector2 \<Rightarrow> Vector2" where
  "add2 this that = Vector2 (vx this + vx that) (vy this + vy that)"

definition sub2 :: "Vector2 \<Rightarrow> Vector2 \<Rightarrow> Vector2" where
  "sub2 this that = Vector2 (vx this - vx that) (vy this - vy that)"

definition scale2 :: "Vector2 \<Rightarrow> real \<Rightarrow> Vector2" where
  "scale2 this v = Vector2 (vx this * v) (vy this * v)"

definition sqrLength2 :: "Vector2 \<Rightarrow> real" where
  "sqrLength2 this = vx this * vx this + vy this * vy this"

definition length2 :: "Vector2 \<Rightarrow> real" where
  "length2 this = sqrt (sqrLength2 this)"

definition norm2 :: "Vector2 \<Rightarrow> Vector2" where
  "norm2 this = (let l = length2 this in if l = 0 then this else scale2 this (1 / l))"

definition sqrDistanceTo :: "Vector2 \<Rightarrow> Vector2 \<Rightarrow> real" where
  "sqrDistanceTo this that =
     (let dx = vx that - vx this; dy = vy that - vy this in dx * dx + dy * dy)"

definition distanceTo :: "Vector2 \<Rightarrow> Vector2 \<Rightarrow> real" where
  "distanceTo this that = sqrt (sqrDistanceTo this that)"

definition lerp :: "Vector2 \<Rightarrow> Vector2 \<Rightarrow> real \<Rightarrow> Vector2" where
  "lerp this that t =
     Vector2 (vx this + (vx that - vx this) * t) (vy this + (vy that - vy this) * t)"

definition dot :: "Vector2 \<Rightarrow> Vector2 \<Rightarrow> real" where
  "dot this that = vx this * vx that + vy this * vy that"

definition copy2 :: "Vector2 \<Rightarrow> real \<Rightarrow> Vector3" where
  "copy2 that z = Vector3 (vx that) (vy that) z"


definition scale3 :: "Vector3 \<Rightarrow> real \<Rightarrow> Vector3" where
  "scale3 this v = Vector3 (wx this * v) (wy this * v) (wz this * v)"

definition length3 :: "Vector3 \<Rightarrow> real" where
  "length3 this = sqrt (wx this * wx this + wy this * wy this + wz this * wz this)"

definition norm3 :: "Vector3 \<Rightarrow> Vector3" where
  "norm3 this = (let l = length3 this in if l = 0 then this else scale3 this (1 / l))"

subsection \<open>Double arithmetic\<close>

text \<open>
  A finite double is a real \<open>m * 2 ^ (e - 52)\<close> with an integer \<open>m\<close>, \<open>\<bar>m\<bar> < 2 ^ 53\<close>, and
  \<open>- 1022 \<le> e \<le> 1023\<close>. Every decimal literal of the source and every result of \<open>+\<close>,
  \<open>-\<close>, \<open>*\<close> and \<open>/\<close> is rounded to the nearest double, a tie going to the even \<open>m\<close>.
  \<open>pow2 k\<close> is \<open>2 ^ k\<close> for an integer \<open>k\<close>; \<open>exponent r\<close> is the \<open>e\<close> with
  \<open>2 ^ e \<le> \<bar>r\<bar> < 2 ^ (e + 1)\<close>, held at \<open>- 1022\<close> for the subnormal numbers; and
  \<open>roundDouble r\<close> is \<open>r\<close> rounded to a multiple of \<open>2 ^ (e - 52)\<close>. A rounded value of
  magnitude \<open>2 ^ 1024\<close> or more is the engine's \<open>Infinity\<close>: \<open>toDouble\<close> returns \<open>None\<close>
  for it.
\<close>

definition pow2 :: "int \<Rightarrow> real" where
  "pow2 k = (if 0 \<le> k then 2 ^ nat k else 1 / 2 ^ nat (- k))"

definition roundHalfEven :: "real \<Rightarrow> int" where
  "roundHalfEven v =
     (let f = \<lfloor>v\<rfloor>; r = v - real_of_int f
      in if r < 1 / 2 then f else if 1 / 2 < r then f + 1
         else if even f then f else f + 1)"

definition exponent :: "real \<Rightarrow> int" where
  "exponent r = max \<lfloor>log 2 \<bar>r\<bar>\<rfloor> (- 1022)"

definition roundDouble :: "real \<Rightarrow> real" where
  "roundDouble r =
     (if r = 0 then 0
      else (let u = pow2 (exponent r - 52) in real_of_int (roundHalfEven (r / u)) * u))"

definition toDouble :: "real \<Rightarrow> real option" where
  "toDouble r = (let d = roundDouble r in if \<bar>d\<bar> < 2 ^ 1024 then Some d else None)"

text \<open>
  The four operations on doubles, for runs whose numbers stay finite; \<open>divD\<close> is used
  only where the source has tested that the divisor is not \<open>0\<close>.
\<close>

definition addD :: "real \<Rightarrow> real \<Rightarrow> real" where "addD a b = roundDouble (a + b)"
definition subD :: "real \<Rightarrow> real \<Rightarrow> real" where "subD a b = roundDouble (a - b)"
definition mulD :: "real \<Rightarrow> real \<Rightarrow> real" where "mulD a b = roundDouble (a * b)"
definition divD :: "real \<Rightarrow> real \<Rightarrow> real" where "divD a b = roundDouble (a / b)"

section \<open>The scene\<close>

text \<open>
  \<open>ImageData\<close> is the browser's pixel buffer: \<open>data\<close> holds four bytes per pixel, row
  by row. A tile is a colour, a texture or \<open>null\<close>.
\<close>

record ImageData =
  width :: nat
  height :: nat
  data :: "nat list"

datatype Tile = TNull | TRGBA RGBA | TImageData ImageData

record Scene =
  walls :: "Tile list"
  width :: real
  height :: real

text \<open>
  Reading a JavaScript array at a number: the element when the number is an index
  of the array, \<open>undefined\<close> (here \<open>None\<close>) otherwise. Nothing is thrown.
\<close>

definition arrayGet :: "'a list \<Rightarrow> real \<Rightarrow> 'a option" where
  "arrayGet xs i =
     (if real_of_int \<lfloor>i\<rfloor> = i \<and> 0 \<le> i \<and> i < real (length xs)
      then Some (xs ! nat \<lfloor>i\<rfloor>) else None)"

text \<open>
  The colours of the floor and the ceiling are computed when the module is loaded, in
  double arithmetic: \<open>0.094\<close>, \<open>0.188\<close> and \<open>0.05\<close> are the doubles nearest to these
  decimals, and each sum is rounded once more.
\<close>

definition SCENE_FLOOR1 :: RGBA where
  "SCENE_FLOOR1 = RGBA (roundDouble 0.094) (addD (roundDouble 0.094) (roundDouble 0.05))
                       (addD (roundDouble 0.094) (roundDouble 0.05)) 1.0"
definition SCENE_FLOOR2 :: RGBA where
  "SCENE_FLOOR2 = RGBA (roundDouble 0.188) (addD (roundDouble 0.188) (roundDouble 0.05))
                       (addD (roundDouble 0.188) (roundDouble 0.05)) 1.0"
definition SCENE_CEILING1 :: RGBA where
  "SCENE_CEILING1 = RGBA (addD (roundDouble 0.094) (roundDouble 0.05))
                         (roundDouble 0.094) (roundDouble 0.094) 1.0"
definition SCENE_CEILING2 :: RGBA where
  "SCENE_CEILING2 = RGBA (addD (roundDouble 0.188) (roundDouble 0.05))
                         (roundDouble 0.188) (roundDouble 0.188) 1.0"

definition sceneContains :: "Scene \<Rightarrow> Vector2 \<Rightarrow> bool" where
  "sceneContains scene p \<longleftrightarrow>
     0 \<le> vx p \<and> vx p < Scene.width scene \<and> 0 \<le> vy p \<and> vy p < Scene.height scene"

definition sceneGetTile :: "Scene \<Rightarrow> Vector2 \<Rightarrow> Tile option" where
  "sceneGetTile scene p =
     (if \<not> sceneContains scene p then None
      else arrayGet (walls scene)
             (real_of_int \<lfloor>vy p\<rfloor> * Scene.width scene + real_of_int \<lfloor>vx p\<rfloor>))"

text \<open>
  \<open>Math.floor\<close> is exact, and the sum of the two floors is a sum of doubles: it is
  rounded, and it is \<open>Infinity\<close> (here \<open>None\<close>) when it is too large. A finite sum \<open>s\<close> is
  an integer. JavaScript's \<open>%\<close> takes the sign of the dividend, on integers it is \<open>smod\<close>;
  \<open>Infinity % 2\<close> is \<open>NaN\<close>, which is not equal to \<open>0\<close>.
\<close>

definition sceneGetFloor :: "Vector2 \<Rightarrow> Tile option" where
  "sceneGetFloor p =
     (case toDouble (real_of_int \<lfloor>vx p\<rfloor> + real_of_int \<lfloor>vy p\<rfloor>) of
        None \<Rightarrow> Some (TRGBA SCENE_FLOOR2)
      | Some s \<Rightarrow> if \<lfloor>s\<rfloor> smod 2 = 0 then Some (TRGBA SCENE_FLOOR1)
                  else Some (TRGBA SCENE_FLOOR2))"

definition sceneGetCeiling :: "Vector2 \<Rightarrow> Tile option" where
  "sceneGetCeiling p =
     (case toDouble (real_of_int \<lfloor>vx p\<rfloor> + real_of_int \<lfloor>vy p\<rfloor>) of
        None \<Rightarrow> Some (TRGBA SCENE_CEILING2)
      | Some s \<Rightarrow> if \<lfloor>s\<rfloor> smod 2 = 0 then Some (TRGBA SCENE_CEILING1)
                  else Some (TRGBA SCENE_CEILING2))"

definition sceneIsWall :: "Scene \<Rightarrow> Vector2 \<Rightarrow> bool" where
  "sceneIsWall scene p =
     (let c = sceneGetTile scene p in c \<noteq> Some TNull \<and> c \<noteq> None)"

text \<open>
  The two nested loops of \<open>sceneCanRectangleFitHere\<close> run over the integers from
  \<open>x1\<close> to \<open>x2\<close> and from \<open>y1\<close> to \<open>y2\<close> and return \<open>false\<close> at the first wall.
\<close>

definition sceneCanRectangleFitHere :: "Scene \<Rightarrow> real \<Rightarrow> real \<Rightarrow> real \<Rightarrow> real \<Rightarrow> bool" where
  "sceneCanRectangleFitHere scene px py sx sy =
     (let x1 = \<lfloor>px - sx * 0.5\<rfloor>; x2 = \<lfloor>px + sx * 0.5\<rfloor>;
          y1 = \<lfloor>py - sy * 0.5\<rfloor>; y2 = \<lfloor>py + sy * 0.5\<rfloor>
      in list_all (\<lambda>x. list_all (\<lambda>y.
           \<not> sceneIsWall scene (Vector2 (real_of_int x) (real_of_int y))) [y1..y2]) [x1..x2])"

section \<open>The player\<close>

record Player =
  position :: Vector2
  fovLeft :: Vector2
  fovRight :: Vector2
  controlVelocity :: Vector2
  direction :: real
  movingForward :: bool
  movingBackward :: bool
  turningLeft :: bool
  turningRight :: bool

definition updatePlayer :: "Player \<Rightarrow> Scene \<Rightarrow> real \<Rightarrow> Player" where
  "updatePlayer player scene deltaTime =
     (let v0 = Vector2 0 0;
          v1 = (if movingForward player
                then add2 v0 (setPolar (direction player) PLAYER_SPEED) else v0);
          v2 = (if movingBackward player
                then sub2 v1 (setPolar (direction player) PLAYER_SPEED) else v1);
          a0 = 0;
          a1 = (if turningLeft player then a0 - pi * 0.75 else a0);
          angularVelocity = (if turningRight player then a1 + pi * 0.75 else a1);
          dir = direction player + angularVelocity * deltaTime;
          nx = vx (Player.position player) + vx v2 * deltaTime;
          x' = (if sceneCanRectangleFitHere scene nx (vy (position player))
                     MINIMAP_PLAYER_SIZE MINIMAP_PLAYER_SIZE
                then nx else vx (Player.position player));
          ny = vy (Player.position player) + vy v2 * deltaTime;
          y' = (if sceneCanRectangleFitHere scene x' ny
                     MINIMAP_PLAYER_SIZE MINIMAP_PLAYER_SIZE
                then ny else vy (Player.position player));
          pos = Vector2 x' y';
          halfFov = FOV * 0.5;
          fovLen = NEAR_CLIPPING_PLANE / cos halfFov
      in player\<lparr>controlVelocity := v2, direction := dir, Player.position := pos,
                fovLeft := add2 (setPolar (dir - halfFov) fovLen) pos,
                fovRight := add2 (setPolar (dir + halfFov) fovLen) pos\<rparr>)"

section \<open>Bombs\<close>

definition BOMB_LIFETIME :: real where "BOMB_LIFETIME = 2"
definition BOMB_THROW_VELOCITY :: real where "BOMB_THROW_VELOCITY = 5"

record Bomb =
  position :: Vector3
  velocity :: Vector3
  lifetime :: real

text \<open>
  \<open>throwBomb\<close> walks the array and stops (\<open>break\<close>) at the first bomb whose lifetime
  is not positive.
\<close>

fun throwBomb :: "Player \<Rightarrow> Bomb list \<Rightarrow> Bomb list" where
  "throwBomb player [] = []"
| "throwBomb player (bomb # bombs) =
     (if lifetime bomb \<le> 0
      then bomb\<lparr>lifetime := BOMB_LIFETIME,
                Bomb.position := copy2 (Player.position player) 0.6,
                velocity := scale3 (Vector3 (cos (direction player)) (sin (direction player)) 0.5)
                              BOMB_THROW_VELOCITY\<rparr> # bombs
      else bomb # throwBomb player bombs)"

section \<open>The ray caster\<close>

definition snap :: "real \<Rightarrow> real \<Rightarrow> real" where
  "snap x dx =
     (if dx > 0 then real_of_int \<lceil>x + sgn dx * EPS\<rceil>
      else if dx < 0 then real_of_int \<lfloor>x + sgn dx * EPS\<rfloor>
      else x)"

definition hittingCell :: "Vector2 \<Rightarrow> Vector2 \<Rightarrow> Vector2" where
  "hittingCell p1 p2 =
     (let dx = vx p2 - vx p1; dy = vy p2 - vy p1
      in Vector2 (real_of_int \<lfloor>vx p2 + sgn dx * EPS\<rfloor>)
                 (real_of_int \<lfloor>vy p2 + sgn dy * EPS\<rfloor>))"

definition rayStep :: "Vector2 \<Rightarrow> Vector2 \<Rightarrow> Vector2" where
  "rayStep p1 p2 =
     (let dx = vx p2 - vx p1; dy = vy p2 - vy p1
      in if dx \<noteq> 0
         then (let k = dy / dx; c = vy p1 - k * vx p1;
                   x3 = snap (vx p2) dx; y3 = x3 * k + c;
                   p3 = Vector2 x3 y3
               in if k \<noteq> 0
                  then (let y3 = snap (vy p2) dy; x3 = (y3 - c) / k;
                            p3t = Vector2 x3 y3
                        in if sqrDistanceTo p2 p3t < sqrDistanceTo p2 p3 then p3t else p3)
                  else p3)
         else (let y3 = snap (vy p2) dy; x3 = vx p2 in Vector2 x3 y3))"

text \<open>
  The loop of \<open>castRay\<close> need not end (it does not for \<open>p1 = p2\<close> away from the walls), so
  it is a partial function: \<open>None\<close> stands for a run that never returns. \<open>start\<close> keeps
  the first \<open>p1\<close>.
\<close>

partial_function (option) castRayLoop :: "Scene \<Rightarrow> Vector2 \<Rightarrow> Vector2 \<Rightarrow> Vector2 \<Rightarrow> Vector2 option" where
  "castRayLoop scene start p1 p2 =
     (if sqrDistanceTo start p1 < FAR_CLIPPING_PLANE * FAR_CLIPPING_PLANE
      then (if sceneIsWall scene (hittingCell p1 p2) then Some p2
            else castRayLoop scene start p2 (rayStep p1 p2))
      else Some p2)"

definition castRay :: "Scene \<Rightarrow> Vector2 \<Rightarrow> Vector2 \<Rightarrow> Vector2 option" where
  "castRay scene p1 p2 = castRayLoop scene p1 p1 p2"

subsection \<open>The ray caster in double arithmetic\<close>

text \<open>
  The functions above compute in exact arithmetic. The functions named with a final
  \<open>D\<close> are the same lines of the source with every \<open>+\<close>, \<open>-\<close>, \<open>*\<close> and \<open>/\<close> rounded as the
  engine rounds it; the constant \<open>EPS\<close> of the source is the double \<open>roundDouble EPS\<close>.
  \<open>Math.sign\<close>, \<open>Math.floor\<close>, \<open>Math.ceil\<close> and the comparisons are exact. The numbers of
  a run are taken to be finite.
\<close>

definition sqrDistanceToD :: "Vector2 \<Rightarrow> Vector2 \<Rightarrow> real" where
  "sqrDistanceToD this that =
     (let dx = subD (vx that) (vx this); dy = subD (vy that) (vy this)
      in addD (mulD dx dx) (mulD dy dy))"

definition snapD :: "real \<Rightarrow> real \<Rightarrow> real" where
  "snapD x dx =
     (if dx > 0 then real_of_int \<lceil>addD x (mulD (sgn dx) (roundDouble EPS))\<rceil>
      else if dx < 0 then real_of_int \<lfloor>addD x (mulD (sgn dx) (roundDouble EPS))\<rfloor>
      else x)"

definition hittingCellD :: "Vector2 \<Rightarrow> Vector2 \<Rightarrow> Vector2" where
  "hittingCellD p1 p2 =
     (let dx = subD (vx p2) (vx p1); dy = subD (vy p2) (vy p1)
      in Vector2 (real_of_int \<lfloor>addD (vx p2) (mulD (sgn dx) (roundDouble EPS))\<rfloor>)
                 (real_of_int \<lfloor>addD (vy p2) (mulD (sgn dy) (roundDouble EPS))\<rfloor>))"

definition rayStepD :: "Vector2 \<Rightarrow> Vector2 \<Rightarrow> Vector2" where
  "rayStepD p1 p2 =
     (let dx = subD (vx p2) (vx p1); dy = subD (vy p2) (vy p1)
      in if dx \<noteq> 0
         then (let k = divD dy dx; c = subD (vy p1) (mulD k (vx p1));
                   x3 = snapD (vx p2) dx; y3 = addD (mulD x3 k) c;
                   p3 = Vector2 x3 y3
               in if k \<noteq> 0
                  then (let y3 = snapD (vy p2) dy; x3 = divD (subD y3 c) k;
                            p3t = Vector2 x3 y3
                        in if sqrDistanceToD p2 p3t < sqrDistanceToD p2 p3 then p3t else p3)
                  else p3)
         else (let y3 = snapD (vy p2) dy; x3 = vx p2 in Vector2 x3 y3))"

partial_function (option) castRayLoopD :: "Scene \<Rightarrow> Vector2 \<Rightarrow> Vector2 \<Rightarrow> Vector2 \<Rightarrow> Vector2 option" where
  "castRayLoopD scene start p1 p2 =
     (if sqrDistanceToD start p1 < mulD FAR_CLIPPING_PLANE FAR_CLIPPING_PLANE
      then (if sceneIsWall scene (hittingCellD p1 p2) then Some p2
            else castRayLoopD scene start p2 (rayStepD p1 p2))
      else Some p2)"

definition castRayD :: "Scene \<Rightarrow> Vector2 \<Rightarrow> Vector2 \<Rightarrow> Vector2 option" where
  "castRayD scene p1 p2 = castRayLoopD scene p1 p1 p2"

section \<open>The display\<close>

text \<open>
  \<open>backImageData.data\<close> is a \<open>Uint8ClampedArray\<close>. A read outside it gives \<open>undefined\<close>;
  a write outside it is dropped; a written number is clamped to \<open>0..255\<close> and rounded to
  the nearest integer, halves to the even one, and a written \<open>NaN\<close> (here \<open>None\<close>, the
  result of arithmetic on \<open>undefined\<close>) is stored as 0.

  \<open>zBuffer\<close> is an ordinary array of numbers, which an assignment beyond its end
  extends: it is a map from indices to numbers. The two canvas contexts of the source's
  \<open>Display\<close> belong to the host and are left out.
\<close>

definition toUint8Clamped :: "real \<Rightarrow> nat" where
  "toUint8Clamped v =
     (if v \<le> 0 then 0 else if 255 \<le> v then 255
      else (let f = \<lfloor>v\<rfloor>; r = v - real_of_int f
            in nat (if r < 0.5 then f else if 0.5 < r then f + 1
                    else if even f then f else f + 1)))"

definition u8Get :: "nat list \<Rightarrow> int \<Rightarrow> real option" where
  "u8Get d i = (if 0 \<le> i \<and> i < int (length d) then Some (real (d ! nat i)) else None)"

definition u8Set :: "nat list \<Rightarrow> int \<Rightarrow> real option \<Rightarrow> nat list" where
  "u8Set d i v =
     (if 0 \<le> i \<and> i < int (length d)
      then d[nat i := (case v of None \<Rightarrow> 0 | Some r \<Rightarrow> toUint8Clamped r)]
      else d)"

record Display =
  backImageData :: ImageData
  zBuffer :: "nat \<Rightarrow> real option"

definition setData :: "Display \<Rightarrow> nat list \<Rightarrow> Display" where
  "setData display d = display\<lparr>backImageData := (backImageData display)\<lparr>data := d\<rparr>\<rparr>"

section \<open>Walls\<close>

text \<open>
  The strip of a wall of one colour. Its loop runs \<open>dy\<close> from 0 while
  \<open>dy < Math.ceil(stripHeight)\<close>; the strip is not clipped to the screen, the rows
  outside it fall outside the array. The shading factor is \<open>1 / zBuffer[x] * 2\<close>.
\<close>

definition solidStrip :: "nat \<Rightarrow> nat \<Rightarrow> nat \<Rightarrow> RGBA \<Rightarrow> real \<Rightarrow> nat list \<Rightarrow> nat list" where
  "solidStrip w h x cell zx dat =
     (let stripHeight = real h / zx;
          shadow = 1 / zx * 2
      in fold (\<lambda>dy dat.
               let y = \<lfloor>(real h - stripHeight) * 0.5\<rfloor> + dy;
                   destP = (y * int w + int x) * 4;
                   dat = u8Set dat (destP + 0) (Some (red cell * shadow * 255));
                   dat = u8Set dat (destP + 1) (Some (green cell * shadow * 255));
                   dat = u8Set dat (destP + 2) (Some (blue cell * shadow * 255))
               in dat)
           [0..\<lceil>stripHeight\<rceil> - 1] dat)"

text \<open>
  The strip of a textured wall, for the hit point \<open>p\<close> in the cell \<open>c\<close>. It is clipped to
  the rows of the screen, and its shading factor is \<open>Math.min(1 / zBuffer[x] * 2, 1)\<close>.
  (\<open>1 / Math.ceil(stripHeight)\<close> divides by zero only for a strip with no rows.)
\<close>

definition texturedStrip ::
    "nat \<Rightarrow> nat \<Rightarrow> nat \<Rightarrow> ImageData \<Rightarrow> Vector2 \<Rightarrow> Vector2 \<Rightarrow> real \<Rightarrow> nat list \<Rightarrow> nat list" where
  "texturedStrip w h x cell p c zx dat =
     (let stripHeight = real h / zx;
          t = sub2 p c;
          u = (if \<bar>vx t\<bar> < EPS \<and> vy t > 0 then vy t
               else if \<bar>vx t - 1\<bar> < EPS \<and> vy t > 0 then 1 - vy t
               else if \<bar>vy t\<bar> < EPS \<and> vx t > 0 then 1 - vx t
               else vx t);
          y1 = \<lfloor>(real h - stripHeight) * 0.5\<rfloor>;
          y2 = \<lfloor>real_of_int y1 + stripHeight\<rfloor>;
          by1 = max 0 y1;
          by2 = min (int h - 1) y2;
          tx = \<lfloor>u * real (ImageData.width cell)\<rfloor>;
          sh = (1 / real_of_int \<lceil>stripHeight\<rceil>) * real (ImageData.height cell);
          shadow = min (1 / zx * 2) 1
      in fold (\<lambda>y dat.
               let ty = \<lfloor>real_of_int (y - y1) * sh\<rfloor>;
                   destP = (y * int w + int x) * 4;
                   srcP = (ty * int (ImageData.width cell) + tx) * 4;
                   dat = u8Set dat (destP + 0)
                           (map_option (\<lambda>s. s * shadow) (u8Get (data cell) (srcP + 0)));
                   dat = u8Set dat (destP + 1)
                           (map_option (\<lambda>s. s * shadow) (u8Get (data cell) (srcP + 1)));
                   dat = u8Set dat (destP + 2)
                           (map_option (\<lambda>s. s * shadow) (u8Get (data cell) (srcP + 2)))
               in dat)
           [by1..by2] dat)"

text \<open>
  One round of the loop of \<open>renderWalls\<close>, for the column \<open>x\<close>. \<open>None\<close> is a run that
  does not come back: the ray cast does not end, or the wall has one colour and
  \<open>zBuffer[x]\<close> is 0, so that the strip height is infinite and its loop never ends. For a
  textured wall at depth 0 the clipped range of rows is empty.
\<close>

definition renderWallColumn :: "Display \<Rightarrow> Player \<Rightarrow> Scene \<Rightarrow> nat \<Rightarrow> Display option" where
  "renderWallColumn display player scene x =
     (let d = setPolar (direction player) 1;
          w = ImageData.width (backImageData display);
          h = ImageData.height (backImageData display)
      in case castRay scene (Player.position player)
                (lerp (fovLeft player) (fovRight player) (real x / real w)) of
           None \<Rightarrow> None
         | Some p \<Rightarrow>
             (let c = hittingCell (Player.position player) p;
                  cell = sceneGetTile scene c;
                  v = sub2 p (Player.position player);
                  zx = dot v d;
                  display = display\<lparr>zBuffer := (zBuffer display)(x \<mapsto> zx)\<rparr>
              in case cell of
                   Some (TRGBA colour) \<Rightarrow>
                     if zx = 0 then (if h = 0 then Some display else None)
                     else Some (setData display
                            (solidStrip w h x colour zx (data (backImageData display))))
                 | Some (TImageData tex) \<Rightarrow>
                     if zx = 0 then Some display
                     else Some (setData display
                            (texturedStrip w h x tex p c zx (data (backImageData display))))
                 | _ \<Rightarrow> Some display))"

fun forEach :: "('s \<Rightarrow> 'a \<Rightarrow> 's option) \<Rightarrow> 'a list \<Rightarrow> 's \<Rightarrow> 's option" where
  "forEach f [] s = Some s"
| "forEach f (x # xs) s = (case f s x of None \<Rightarrow> None | Some s' \<Rightarrow> forEach f xs s')"

definition renderWalls :: "Display \<Rightarrow> Player \<Rightarrow> Scene \<Rightarrow> Display option" where
  "renderWalls display player scene =
     forEach (\<lambda>display x. renderWallColumn display player scene x)
       [0..<ImageData.width (backImageData display)] display"

section \<open>Sprites\<close>

text \<open>
  The fields \<open>z\<close>, \<open>dist\<close> and \<open>t\<close> of a sprite are written \<open>spriteZ\<close>, \<open>spriteDist\<close> and
  \<open>spriteT\<close>, and the \<open>length\<close> of the pool \<open>length'\<close>. \<open>spriteT\<close> is \<open>None\<close> when the
  division that computes it is by zero, and its value is an infinity or \<open>NaN\<close>.
\<close>

datatype Image = OfImageData ImageData | OfRGBA RGBA

record Sprite =
  image :: Image
  position :: Vector2
  spriteZ :: real
  scale :: real
  spriteDist :: real
  pdist :: real
  spriteT :: "real option"

record SpritePool =
  items :: "Sprite list"
  length' :: nat


text \<open>
  One round of the loop of \<open>cullSprites\<close>: the sprite with the fields the round has
  written, and whether it was pushed on \<open>visibleSprites\<close>.
\<close>

definition cullSprite :: "Player \<Rightarrow> Vector2 \<Rightarrow> Sprite \<Rightarrow> Sprite \<times> bool" where
  "cullSprite player dir sprite =
     (let sp = sub2 (Sprite.position sprite) (Player.position player);
          spl = length2 sp
      in if spl \<le> NEAR_CLIPPING_PLANE then (sprite, False)
         else if spl \<ge> FAR_CLIPPING_PLANE then (sprite, False)
         else (let dt = dot sp dir / spl
               in if \<not> (HALF_FOV_COS \<le> dt) then (sprite, False)
                  else (let sprite = sprite\<lparr>spriteDist := NEAR_CLIPPING_PLANE / dt\<rparr>;
                            sp = add2 (scale2 (norm2 sp) (spriteDist sprite)) (Player.position player);
                            span = distanceTo (fovLeft player) (fovRight player);
                            sprite = sprite\<lparr>spriteT :=
                              (if span = 0 then None
                               else Some (distanceTo (fovLeft player) sp / span))\<rparr>;
                            sprite = sprite\<lparr>pdist :=
                              dot (sub2 (Sprite.position sprite) (Player.position player)) dir\<rparr>
                        in if pdist sprite < NEAR_CLIPPING_PLANE then (sprite, False)
                           else if pdist sprite \<ge> FAR_CLIPPING_PLANE then (sprite, False)
                           else (sprite, True))))"

text \<open>
  \<open>cullSprites\<close> empties \<open>visibleSprites\<close>, visits the first \<open>length\<close> sprites of the pool
  and sorts the visible ones with the comparison \<open>b.pdist - a.pdist\<close>; the sort of an
  array is stable. It returns the pool and the new \<open>visibleSprites\<close>. Reading a field of
  \<open>items[i]\<close> beyond the end of \<open>items\<close> throws: \<open>None\<close>.
\<close>

definition cullSprites :: "Player \<Rightarrow> SpritePool \<Rightarrow> (SpritePool \<times> Sprite list) option" where
  "cullSprites player spritePool =
     (if length (items spritePool) < length' spritePool then None
      else (let dir = setPolar (direction player) 1;
                rounds = map (cullSprite player dir) (take (length' spritePool) (items spritePool));
                visibleSprites = map fst (filter snd rounds)
            in Some (spritePool\<lparr>items := map fst rounds @ drop (length' spritePool) (items spritePool)\<rparr>,
                     sort_key (\<lambda>a. - pdist a) visibleSprites)))"

text \<open>
  Blending one channel: \<open>dest[i] = dest[i]*(1 - alpha) + src*alpha\<close>. An \<open>undefined\<close> texel
  or alpha makes the sum \<open>NaN\<close>; outside \<open>dest\<close> nothing is written.
\<close>

definition blend :: "nat list \<Rightarrow> int \<Rightarrow> real option \<Rightarrow> real option \<Rightarrow> nat list" where
  "blend dest i src al =
     u8Set dest i
       (case (u8Get dest i, src, al) of
          (Some dv, Some s, Some a) \<Rightarrow> Some (dv * (1 - a) + s * a)
        | _ \<Rightarrow> None)"

text \<open>
  One round of the loop of \<open>renderSprites\<close>. For \<open>pdist = 0\<close> the sprite size is an
  infinity or \<open>NaN\<close>, and so are \<open>x2\<close> and \<open>bx2\<close>; then, as for a \<open>t\<close> that is not finite,
  no column passes the loop test and nothing is drawn. A sprite with a column has
  \<open>x1 \<le> x2\<close>, so its size, by which the texture coordinates are divided, is at least 1.
  \<open>zBuffer[x]\<close> may be missing, and no number is less than \<open>undefined\<close>.
\<close>

definition renderSprite :: "Display \<Rightarrow> Sprite \<Rightarrow> Display" where
  "renderSprite display sprite =
     (case spriteT sprite of
        None \<Rightarrow> display
      | Some t \<Rightarrow>
         if pdist sprite = 0 then display
         else
          (let w = ImageData.width (backImageData display);
               h = ImageData.height (backImageData display);
               cx = real w * t;
               cy = real h * 0.5;
               maxSpriteSize = real h / pdist sprite;
               spriteSize = maxSpriteSize * scale sprite;
               x1 = \<lfloor>cx - spriteSize * 0.5\<rfloor>;
               x2 = \<lfloor>real_of_int x1 + spriteSize - 1\<rfloor>;
               bx1 = max 0 x1;
               bx2 = min (int w - 1) x2;
               y1 = \<lfloor>cy + maxSpriteSize * 0.5 - maxSpriteSize * spriteZ sprite\<rfloor>;
               y2 = \<lfloor>real_of_int y1 + spriteSize - 1\<rfloor>;
               by1 = max 0 y1;
               by2 = min (int h - 1) y2;
               visibleAt = (\<lambda>x. case zBuffer display (nat x) of
                                   None \<Rightarrow> False | Some zx \<Rightarrow> pdist sprite < zx)
           in case image sprite of
                OfImageData img \<Rightarrow>
                  setData display
                    (fold (\<lambda>x dest.
                       if visibleAt x
                       then fold (\<lambda>y dest.
                              let tx = \<lfloor>real_of_int (x - x1) / spriteSize * real (ImageData.width img)\<rfloor>;
                                  ty = \<lfloor>real_of_int (y - y1) / spriteSize * real (ImageData.height img)\<rfloor>;
                                  srcP = (ty * int (ImageData.width img) + tx) * 4;
                                  destP = (y * int w + x) * 4;
                                  al = map_option (\<lambda>s. s / 255) (u8Get (data img) (srcP + 3));
                                  dest = blend dest (destP + 0) (u8Get (data img) (srcP + 0)) al;
                                  dest = blend dest (destP + 1) (u8Get (data img) (srcP + 1)) al;
                                  dest = blend dest (destP + 2) (u8Get (data img) (srcP + 2)) al
                              in dest)
                            [by1..by2] dest
                       else dest)
                     [bx1..bx2] (data (backImageData display)))
              | OfRGBA colour \<Rightarrow>
                  setData display
                    (fold (\<lambda>x dest.
                       if visibleAt x
                       then fold (\<lambda>y dest.
                              let destP = (y * int w + x) * 4;
                                  al = alpha colour;
                                  dest = blend dest (destP + 0) (Some (red colour * 255)) (Some al);
                                  dest = blend dest (destP + 1) (Some (green colour * 255)) (Some al);
                                  dest = blend dest (destP + 2) (Some (blue colour * 255)) (Some al)
                              in dest)
                            [by1..by2] dest
                       else dest)
                     [bx1..bx2] (data (backImageData display)))))"


section \<open>Items, bombs and particles\<close>






datatype ItemKind = KindKey | KindBomb

record Item =
  kind :: ItemKind
  alive :: bool
  position :: Vector2












section \<open>Floor, ceiling and the frame\<close>





section \<open>Examples and specification-side notions\<close>

definition demoScene :: Scene where
  "demoScene = \<lparr>walls = [TNull, TNull, TRGBA (RGBA 1 0 0 1), TNull, TNull, TNull],
                 width = 3, height = 2\<rparr>"

definition demoPlayer :: Player where
  "demoPlayer = \<lparr>Player.position = Vector2 0.5 0.5, fovLeft = Vector2 0 0, fovRight = Vector2 0 0,
     controlVelocity = Vector2 0 0, direction = 0, movingForward = True,
     movingBackward = False, turningLeft = False, turningRight = True\<rparr>"

text \<open>
  The statement that the player stands clear of the walls, in the words of the
  specification: the cells met by the closed square of side 0.5 centred at the position
  are the cells \<open>(\<lfloor>u\<rfloor>, \<lfloor>v\<rfloor>)\<close> of its points \<open>(u, v)\<close>, and none of them is a wall.
\<close>

definition playerBoxCells :: "Vector2 \<Rightarrow> (int \<times> int) set" where
  "playerBoxCells pos =
     {(cx, cy). \<exists>u v. \<bar>u - vx pos\<bar> \<le> 0.25 \<and> \<bar>v - vy pos\<bar> \<le> 0.25 \<and> \<lfloor>u\<rfloor> = cx \<and> \<lfloor>v\<rfloor> = cy}"

definition playerBoxFree :: "Scene \<Rightarrow> Vector2 \<Rightarrow> bool" where
  "playerBoxFree scene pos \<longleftrightarrow>
     (\<forall>(cx, cy) \<in> playerBoxCells pos.
        \<not> sceneIsWall scene (Vector2 (real_of_int cx) (real_of_int cy)))"

definition demoBombs :: "Bomb list" where
  "demoBombs =
     [\<lparr>Bomb.position = Vector3 1 1 0.5, velocity = Vector3 1 0 0, lifetime = 1.5\<rparr>,
      \<lparr>Bomb.position = Vector3 0 0 0, velocity = Vector3 0 0 0, lifetime = 0\<rparr>,
      \<lparr>Bomb.position = Vector3 2 1 0.3, velocity = Vector3 0 1 0, lifetime = - 0.01\<rparr>]"



text \<open>
  The four bytes of the pixel in column \<open>x\<close> and row \<open>y\<close> of an image, \<open>None\<close> for a
  byte beyond the array.
\<close>

definition pixel :: "ImageData \<Rightarrow> nat \<Rightarrow> nat \<Rightarrow> real option list" where
  "pixel img x y =
     map (\<lambda>c. u8Get (data img) ((int y * int (ImageData.width img) + int x) * 4 + c)) [0, 1, 2, 3]"

text \<open>
  A second example: a 2 by 2 scene with a wall of one colour in cell \<open>(1, 0)\<close> and a
  textured wall in cell \<open>(1, 1)\<close>, a player at \<open>(0.5, 1.5)\<close> facing east, with the field
  of view \<open>updatePlayer\<close> gives that direction, and a 2 by 2 display as \<open>createDisplay\<close>
  makes it. The ray of column 0 hits the coloured wall, the ray of column 1 the
  textured one, both at depth 0.5.
\<close>

definition shadeScene :: Scene where
  "shadeScene =
     \<lparr>walls = [TNull, TRGBA (RGBA 0.2 0.3 0.1 1),
               TNull, TImageData \<lparr>ImageData.width = 1, ImageData.height = 1, data = [100, 50, 200, 255]\<rparr>],
      width = 2, height = 2\<rparr>"

definition shadePlayer :: Player where
  "shadePlayer =
     \<lparr>Player.position = Vector2 0.5 1.5, fovLeft = Vector2 0.6 1.4, fovRight = Vector2 0.6 1.6,
      controlVelocity = Vector2 0 0, direction = 0, movingForward = False,
      movingBackward = False, turningLeft = False, turningRight = False\<rparr>"

definition shadeDisplay :: Display where
  "shadeDisplay =
     \<lparr>backImageData = \<lparr>ImageData.width = 2, ImageData.height = 2, data = replicate 16 255\<rparr>,
      zBuffer = [0 \<mapsto> 0, 1 \<mapsto> 0]\<rparr>"

text \<open>
  The order in which \<open>renderSprites\<close> draws a list of sprites is the order of the list.
  Back to front: no sprite is drawn before one that is farther away; strictly so when
  each one is nearer than all those drawn before it.
\<close>

definition backToFront :: "Sprite list \<Rightarrow> bool" where
  "backToFront sprites = sorted_wrt (\<lambda>a b. pdist b \<le> pdist a) sprites"

definition strictlyBackToFront :: "Sprite list \<Rightarrow> bool" where
  "strictlyBackToFront sprites = sorted_wrt (\<lambda>a b. pdist b < pdist a) sprites"

text \<open>
  Three sprites in front of the player of the second example, as \<open>pushSprite\<close> leaves
  them: two at the same depth 0.8 to the left and to the right, one at depth 1 straight
  ahead.
\<close>

definition cullPool :: SpritePool where
  "cullPool =
     \<lparr>items =
        [\<lparr>image = OfRGBA (RGBA 1 0.5 0.15 1), Sprite.position = Vector2 1.3 2.1, spriteZ = 0.5,
          scale = 0.1, spriteDist = 0, pdist = 0, spriteT = Some 0\<rparr>,
         \<lparr>image = OfRGBA (RGBA 1 0.5 0.15 1), Sprite.position = Vector2 1.5 1.5, spriteZ = 0.5,
          scale = 0.1, spriteDist = 0, pdist = 0, spriteT = Some 0\<rparr>,
         \<lparr>image = OfRGBA (RGBA 1 0.5 0.15 1), Sprite.position = Vector2 1.3 0.9, spriteZ = 0.5,
          scale = 0.1, spriteDist = 0, pdist = 0, spriteT = Some 0\<rparr>],
      length' = 3\<rparr>"

text \<open>
  A 4 by 2 display whose depth buffer has a wall at depth 0.5 in column 0 and at depth 2
  in the other columns, and a sprite of one colour at depth 0.8 in the middle of the
  view; it covers the columns 0 and 1 of row 1.
\<close>

definition spriteDisplay :: Display where
  "spriteDisplay =
     \<lparr>backImageData = \<lparr>ImageData.width = 4, ImageData.height = 2, data = replicate 32 0\<rparr>,
      zBuffer = [0 \<mapsto> 0.5, 1 \<mapsto> 2, 2 \<mapsto> 2, 3 \<mapsto> 2]\<rparr>"

definition demoSprite :: Sprite where
  "demoSprite =
     \<lparr>image = OfRGBA (RGBA 1 0.5 0.15 1), Sprite.position = Vector2 1.3 1.5, spriteZ = 0.5,
      scale = 1, spriteDist = 0.1, pdist = 0.8, spriteT = Some 0.5\<rparr>"

text \<open>
  The display of the second example after the column 0 and after the column 1 of
  \<open>renderWalls\<close>.
\<close>

definition shadeColumn0 :: Display where
  "shadeColumn0 = setData (shadeDisplay\<lparr>zBuffer := (zBuffer shadeDisplay)(0 \<mapsto> 0.5)\<rparr>)
     [204, 255, 102, 255, 255, 255, 255, 255, 204, 255, 102, 255, 255, 255, 255, 255]"

definition shadeColumn1 :: Display where
  "shadeColumn1 = setData (shadeColumn0\<lparr>zBuffer := (zBuffer shadeColumn0)(1 \<mapsto> 0.5)\<rparr>)
     [204, 255, 102, 255, 100, 50, 200, 255, 204, 255, 102, 255, 100, 50, 200, 255]"

text \<open>
  Two arrays of bytes agree on the pixels of the column \<open>x\<close> of an image of width \<open>w\<close>.
\<close>

definition sameColumn :: "nat \<Rightarrow> nat \<Rightarrow> nat list \<Rightarrow> nat list \<Rightarrow> bool" where
  "sameColumn w x d d' \<longleftrightarrow>
     (\<forall>y c. 0 \<le> c \<and> c < 4 \<longrightarrow> u8Get d' ((y * int w + int x) * 4 + c) = u8Get d ((y * int w + int x) * 4 + c))"











section \<open>Properties\<close>

subsection \<open>Double arithmetic\<close>

lemma pow2_powr: "pow2 k = 2 powr real_of_int k"
  by (simp add: pow2_def powr_real_of_int field_simps)

lemma pow2_pos: "0 < pow2 k"
  by (simp add: pow2_powr)

lemma exponent_eq:
  assumes "pow2 k \<le> \<bar>r\<bar>" "\<bar>r\<bar> < pow2 (k + 1)" "- 1022 \<le> k"
  shows "exponent r = k"
proof -
  have pos: "0 < \<bar>r\<bar>" using assms(1) pow2_pos [of k] by linarith
  have "\<lfloor>log 2 \<bar>r\<bar>\<rfloor> = k"
    using assms(1,2) floor_log_eq_powr_iff [OF pos, of 2 k]
    by (simp add: pow2_powr)
  then show ?thesis using assms(3) by (simp add: exponent_def)
qed

text \<open>
  How a number is rounded once its binade \<open>2 ^ k \<le> \<bar>r\<bar> < 2 ^ (k + 1)\<close> is known.
\<close>

lemma roundDouble_eval:
  assumes "pow2 k \<le> \<bar>r\<bar>" "\<bar>r\<bar> < pow2 (k + 1)" "- 1022 \<le> k"
  shows "roundDouble r = real_of_int (roundHalfEven (r / pow2 (k - 52))) * pow2 (k - 52)"
proof -
  have "r \<noteq> 0" using assms(1) pow2_pos [of k] by auto
  then show ?thesis by (simp add: roundDouble_def exponent_eq [OF assms] Let_def)
qed

lemma roundHalfEven_of_int: "roundHalfEven (real_of_int n) = n"
  by (simp add: roundHalfEven_def)

text \<open>
  The integers up to \<open>2 ^ 53\<close> in magnitude are doubles.
\<close>

lemma roundDouble_of_int:
  assumes "\<bar>n\<bar> \<le> 2 ^ 53"
  shows "roundDouble (real_of_int n) = real_of_int n"
proof (cases "n = 0")
  case True
  then show ?thesis by (simp add: roundDouble_def)
next
  case False
  define a where "a = \<bar>real_of_int n\<bar>"
  define e where "e = \<lfloor>log 2 a\<rfloor>"
  have "1 \<le> \<bar>n\<bar>" using False by simp
  then have "real_of_int 1 \<le> real_of_int \<bar>n\<bar>" by (simp only: of_int_le_iff)
  then have a1: "1 \<le> a" by (simp add: a_def)
  have a53: "a \<le> 2 ^ 53" using assms unfolding a_def
    by (metis of_int_abs of_int_le_iff of_int_numeral of_int_power)
  have apos: "0 < a" using a1 by linarith
  have bnd: "2 powr real_of_int e \<le> a" "a < 2 powr real_of_int (e + 1)"
    using floor_log_eq_powr_iff [OF apos, of 2 e] by (simp_all add: e_def)
  have e0: "0 \<le> e" using a1 by (simp add: e_def)
  have p53: "(2::real) powr real_of_int 53 = 2 ^ 53"
    using powr_real_of_int [of 2 53] by simp
  have "(2::real) powr real_of_int e \<le> 2 powr real_of_int 53"
    unfolding p53 using bnd(1) a53 by linarith
  then have "real_of_int e \<le> real_of_int 53"
    using powr_le_cancel_iff [of 2 "real_of_int e" "real_of_int 53"] by linarith
  then have e53: "e \<le> 53" by (simp only: of_int_le_iff)
  have ex: "exponent (real_of_int n) = e"
    using e0 by (simp add: exponent_def e_def a_def)
  have rd: "roundDouble (real_of_int n) =
      real_of_int (roundHalfEven (real_of_int n / pow2 (e - 52))) * pow2 (e - 52)"
    using False by (simp add: roundDouble_def ex Let_def)
  show ?thesis
  proof (cases "e \<le> 52")
    case True
    then have u: "pow2 (e - 52) = 1 / 2 ^ nat (52 - e)"
      by (cases "e = 52") (simp_all add: pow2_def)
    have "real_of_int n / pow2 (e - 52) = real_of_int (n * 2 ^ nat (52 - e))"
      by (simp add: u)
    then show ?thesis unfolding rd
      by (simp only: roundHalfEven_of_int) (simp add: u)
  next
    case False
    then have e: "e = 53" using e53 by simp
    have "2 ^ 53 \<le> a" using bnd(1) unfolding e p53 .
    then have "a = 2 ^ 53" using a53 by simp
    then have "\<bar>n\<bar> = 2 ^ 53" unfolding a_def
      by (metis of_int_abs of_int_eq_iff of_int_numeral of_int_power)
    then have n: "n = 2 ^ 53 \<or> n = - (2 ^ 53)" by (simp add: abs_if split: if_splits)
    have u: "pow2 (e - 52) = 2" by (simp add: e pow2_def)
    from n show ?thesis
    proof
      assume n: "n = 2 ^ 53"
      then have "real_of_int n / 2 = real_of_int (2 ^ 52)" by simp
      then have "roundHalfEven (real_of_int n / 2) = 2 ^ 52"
        by (simp only: roundHalfEven_of_int)
      then show ?thesis unfolding rd u by (simp add: n)
    next
      assume n: "n = - (2 ^ 53)"
      then have "real_of_int n / 2 = real_of_int (- (2 ^ 52))" by simp
      then have "roundHalfEven (real_of_int n / 2) = - (2 ^ 52)"
        by (simp only: roundHalfEven_of_int)
      then show ?thesis unfolding rd u by (simp add: n)
    qed
  qed
qed

lemma toDouble_of_int:
  assumes "\<bar>n\<bar> \<le> 2 ^ 53"
  shows "toDouble (real_of_int n) = Some (real_of_int n)"
proof -
  have "\<bar>real_of_int n\<bar> \<le> 2 ^ 53" using assms
    by (metis of_int_abs of_int_le_iff of_int_numeral of_int_power)
  moreover have "(2::real) ^ 53 < 2 ^ 1024" by simp
  ultimately have "\<bar>real_of_int n\<bar> < 2 ^ 1024" by linarith
  then show ?thesis by (simp add: toDouble_def roundDouble_of_int [OF assms] Let_def)
qed

text \<open>
  \<open>2 ^ 53 + 1\<close> lies halfway between the doubles \<open>2 ^ 53\<close> and \<open>2 ^ 53 + 2\<close> and is rounded
  to the first.
\<close>

lemma toDouble_2_53_plus_1: "toDouble (2 ^ 53 + 1) = Some (2 ^ 53)"
proof -
  have "roundDouble (2 ^ 53 + 1) = 2 ^ 53"
    using roundDouble_eval [of 53 "2 ^ 53 + 1"]
    by (simp add: pow2_def roundHalfEven_def Let_def)
  then show ?thesis by (simp add: toDouble_def Let_def)
qed

subsection \<open>Floor and ceiling colours\<close>

text \<open>
  The doubles written \<open>0.094\<close>, \<open>0.05\<close>, \<open>0.188\<close>, \<open>0.144\<close> and \<open>0.238\<close>, and the two sums of
  the source. The sum \<open>0.188 + 0.05\<close> is the double \<open>0.238\<close>; the sum \<open>0.094 + 0.05\<close> is
  \<open>1297036692682703 / 2 ^ 53\<close>, which JavaScript prints as \<open>0.14400000000000002\<close>: it is the
  double next above the double \<open>0.144 = 5188146770730811 / 2 ^ 55\<close>.
\<close>

lemma r094: "roundDouble 0.094 = 3386706919782613 / 2 ^ 55"
  using roundDouble_eval [of "- 4" "0.094"]
  by (simp add: pow2_def roundHalfEven_def Let_def)

lemma r005: "roundDouble 0.05 = 3602879701896397 / 2 ^ 56"
  using roundDouble_eval [of "- 5" "0.05"]
  by (simp add: pow2_def roundHalfEven_def Let_def)

lemma r188: "roundDouble 0.188 = 3386706919782613 / 2 ^ 54"
  using roundDouble_eval [of "- 3" "0.188"]
  by (simp add: pow2_def roundHalfEven_def Let_def)

lemma r144lit: "roundDouble 0.144 = 5188146770730811 / 2 ^ 55"
  using roundDouble_eval [of "- 3" "0.144"]
  by (simp add: pow2_def roundHalfEven_def Let_def)

lemma r238lit: "roundDouble 0.238 = 535928355657089 / 2 ^ 51"
  using roundDouble_eval [of "- 3" "0.238"]
  by (simp add: pow2_def roundHalfEven_def Let_def)

lemma r144: "addD (roundDouble 0.094) (roundDouble 0.05) = 1297036692682703 / 2 ^ 53"
  unfolding r094 r005 addD_def
  using roundDouble_eval [of "- 3" "3386706919782613 / 2 ^ 55 + 3602879701896397 / 2 ^ 56"]
  by (simp add: pow2_def roundHalfEven_def Let_def)

lemma r238: "addD (roundDouble 0.188) (roundDouble 0.05) = 535928355657089 / 2 ^ 51"
  unfolding r188 r005 addD_def
  using roundDouble_eval [of "- 3" "3386706919782613 / 2 ^ 54 + 3602879701896397 / 2 ^ 56"]
  by (simp add: pow2_def roundHalfEven_def Let_def)

lemma scene_colours:
  "SCENE_FLOOR1 = RGBA (roundDouble 0.094) (1297036692682703 / 2 ^ 53)
                       (1297036692682703 / 2 ^ 53) 1"
  "SCENE_FLOOR2 = RGBA (roundDouble 0.188) (roundDouble 0.238) (roundDouble 0.238) 1"
  "SCENE_CEILING1 = RGBA (1297036692682703 / 2 ^ 53) (roundDouble 0.094) (roundDouble 0.094) 1"
  "SCENE_CEILING2 = RGBA (roundDouble 0.238) (roundDouble 0.188) (roundDouble 0.188) 1"
  unfolding SCENE_FLOOR1_def SCENE_FLOOR2_def SCENE_CEILING1_def SCENE_CEILING2_def
    r144 r238 r238lit by simp_all

lemma smod_2_eq_0_iff: "(n :: int) smod 2 = 0 \<longleftrightarrow> n mod 2 = 0"
  by (auto simp add: smod_int_alt_def sgn_if abs_if)

text \<open>
  C4, as the code has it. At every point \<open>(x, y)\<close> with \<open>\<bar>\<lfloor>x\<rfloor> + \<lfloor>y\<rfloor>\<bar> \<le> 2 ^ 53\<close>, also one with
  negative coordinates, \<open>sceneGetFloor\<close> is \<open>SCENE_FLOOR1\<close> when \<open>(\<lfloor>x\<rfloor> + \<lfloor>y\<rfloor>) mod 2 = 0\<close> and
  \<open>SCENE_FLOOR2\<close> otherwise, and \<open>sceneGetCeiling\<close> follows the same rule with
  \<open>SCENE_CEILING1\<close> and \<open>SCENE_CEILING2\<close>. The colours are those of the source: \<open>SCENE_FLOOR1\<close>
  is \<open>(0.094, 0.094 + 0.05, 0.094 + 0.05, 1)\<close> and \<open>SCENE_CEILING1\<close> is
  \<open>(0.094 + 0.05, 0.094, 0.094, 1)\<close>, where the double sum \<open>0.094 + 0.05\<close> is
  \<open>0.14400000000000002\<close>; \<open>SCENE_FLOOR2\<close> is \<open>(0.188, 0.238, 0.238, 1)\<close> and \<open>SCENE_CEILING2\<close> is
  \<open>(0.238, 0.188, 0.188, 1)\<close>, every number being the double nearest to the decimal.
\<close>

theorem sceneGetFloor_sceneGetCeiling_parity_exact_sum:
  assumes "\<bar>\<lfloor>x\<rfloor> + \<lfloor>y\<rfloor>\<bar> \<le> 2 ^ 53"
  shows "sceneGetFloor (Vector2 x y) =
       (if (\<lfloor>x\<rfloor> + \<lfloor>y\<rfloor>) mod 2 = 0
        then Some (TRGBA (RGBA (roundDouble 0.094) (1297036692682703 / 2 ^ 53)
                               (1297036692682703 / 2 ^ 53) 1))
        else Some (TRGBA (RGBA (roundDouble 0.188) (roundDouble 0.238) (roundDouble 0.238) 1)))
     \<and> sceneGetCeiling (Vector2 x y) =
       (if (\<lfloor>x\<rfloor> + \<lfloor>y\<rfloor>) mod 2 = 0
        then Some (TRGBA (RGBA (1297036692682703 / 2 ^ 53) (roundDouble 0.094)
                               (roundDouble 0.094) 1))
        else Some (TRGBA (RGBA (roundDouble 0.238) (roundDouble 0.188) (roundDouble 0.188) 1)))"
proof -
  have s: "toDouble (real_of_int \<lfloor>x\<rfloor> + real_of_int \<lfloor>y\<rfloor>) = Some (real_of_int (\<lfloor>x\<rfloor> + \<lfloor>y\<rfloor>))"
    using toDouble_of_int [OF assms] by simp
  show ?thesis
    unfolding sceneGetFloor_def sceneGetCeiling_def scene_colours
    by (simp add: s smod_2_eq_0_iff)
qed

text \<open>
  At \<open>(- 1.5, 0.5)\<close> the floors are \<open>- 2\<close> and \<open>0\<close>, the sum is even, and the first colours
  are returned; at \<open>(- 1.5, 1.5)\<close> the sum is \<open>- 1\<close> and the second colours are returned.
\<close>

lemma floor_neg_three_halves: "\<lfloor>- (3 / 2) :: real\<rfloor> = - 2"
  by (simp add: floor_eq_iff)

theorem sceneGetFloor_sceneGetCeiling_parity_exact_sum_witness:
  "\<bar>\<lfloor>- 1.5 :: real\<rfloor> + \<lfloor>0.5 :: real\<rfloor>\<bar> \<le> 2 ^ 53
   \<and> sceneGetFloor (Vector2 (- 1.5) 0.5) =
       Some (TRGBA (RGBA (roundDouble 0.094) (1297036692682703 / 2 ^ 53)
                         (1297036692682703 / 2 ^ 53) 1))
   \<and> sceneGetCeiling (Vector2 (- 1.5) 0.5) =
       Some (TRGBA (RGBA (1297036692682703 / 2 ^ 53) (roundDouble 0.094) (roundDouble 0.094) 1))
   \<and> sceneGetFloor (Vector2 (- 1.5) 1.5) =
       Some (TRGBA (RGBA (roundDouble 0.188) (roundDouble 0.238) (roundDouble 0.238) 1))
   \<and> sceneGetCeiling (Vector2 (- 1.5) 1.5) =
       Some (TRGBA (RGBA (roundDouble 0.238) (roundDouble 0.188) (roundDouble 0.188) 1))"
  using sceneGetFloor_sceneGetCeiling_parity_exact_sum [of "- 1.5" "0.5"]
    sceneGetFloor_sceneGetCeiling_parity_exact_sum [of "- 1.5" "1.5"]
  by (simp add: floor_neg_three_halves)

text \<open>
  The first colour of the floor is not \<open>(0.094, 0.144, 0.144, 1)\<close>, and the parity rule
  does not hold at every point. At \<open>(0, 0)\<close> the sum is even and the floor is
  \<open>SCENE_FLOOR1\<close>, whose green is the double next above \<open>0.144\<close>: the colour differs from
  \<open>(0.094, 0.144, 0.144, 1)\<close>, whether these decimals are read as doubles or as reals.
  At \<open>(2 ^ 53, 1)\<close> the sum of the floors is the odd number \<open>2 ^ 53 + 1\<close>, yet the double
  sum is \<open>2 ^ 53\<close> and the floor is \<open>SCENE_FLOOR1\<close>, which is not \<open>SCENE_FLOOR2\<close>.
\<close>

theorem sceneGetFloor_not_as_claimed:
  "sceneGetFloor (Vector2 0 0) = Some (TRGBA SCENE_FLOOR1)
   \<and> green SCENE_FLOOR1 = roundDouble 0.144 + 1 / 2 ^ 55
   \<and> SCENE_FLOOR1 \<noteq> RGBA (roundDouble 0.094) (roundDouble 0.144) (roundDouble 0.144) 1
   \<and> SCENE_FLOOR1 \<noteq> RGBA 0.094 0.144 0.144 1
   \<and> (\<lfloor>2 ^ 53 :: real\<rfloor> + \<lfloor>1 :: real\<rfloor>) mod 2 \<noteq> 0
   \<and> sceneGetFloor (Vector2 (2 ^ 53) 1) = Some (TRGBA SCENE_FLOOR1)
   \<and> SCENE_FLOOR1 \<noteq> SCENE_FLOOR2"
proof -
  have z: "toDouble 0 = Some 0" by (simp add: toDouble_def roundDouble_def)
  have a: "sceneGetFloor (Vector2 0 0) = Some (TRGBA SCENE_FLOOR1)"
    by (simp add: sceneGetFloor_def z)
  have b: "green SCENE_FLOOR1 = roundDouble 0.144 + 1 / 2 ^ 55"
    unfolding scene_colours r144lit by simp
  have c: "SCENE_FLOOR1 \<noteq> RGBA (roundDouble 0.094) (roundDouble 0.144) (roundDouble 0.144) 1"
    unfolding scene_colours r144lit by simp
  have d: "SCENE_FLOOR1 \<noteq> RGBA 0.094 0.144 0.144 1"
    unfolding scene_colours by simp
  have e: "(\<lfloor>2 ^ 53 :: real\<rfloor> + \<lfloor>1 :: real\<rfloor>) mod 2 \<noteq> 0" by simp
  have f: "sceneGetFloor (Vector2 (2 ^ 53) 1) = Some (TRGBA SCENE_FLOOR1)"
    using toDouble_2_53_plus_1 by (simp add: sceneGetFloor_def)
  have g: "SCENE_FLOOR1 \<noteq> SCENE_FLOOR2"
    unfolding scene_colours r238lit by simp
  from a b c d e f g show ?thesis by blast
qed

subsection \<open>Lookups outside the grid\<close>

text \<open>
  C9. For every scene and every point whose floored coordinate is below 0 or is at or
  beyond the width or the height, \<open>sceneGetTile\<close> yields no tile (the value
  \<open>undefined\<close>, which the engine treats like the \<open>null\<close> of an empty cell) and
  \<open>sceneIsWall\<close> is false. The lookup is a total function: it has no failing branch.
\<close>

theorem sceneGetTile_outside:
  assumes "\<lfloor>vx p\<rfloor> < 0 \<or> Scene.width scene \<le> real_of_int \<lfloor>vx p\<rfloor>
         \<or> \<lfloor>vy p\<rfloor> < 0 \<or> Scene.height scene \<le> real_of_int \<lfloor>vy p\<rfloor>"
  shows "sceneGetTile scene p = None \<and> sceneIsWall scene p = False"
proof -
  have "\<not> sceneContains scene p"
  proof
    assume "sceneContains scene p"
    then have c: "0 \<le> vx p" "vx p < Scene.width scene" "0 \<le> vy p" "vy p < Scene.height scene"
      by (simp_all add: sceneContains_def)
    have "0 \<le> \<lfloor>vx p\<rfloor>" and "0 \<le> \<lfloor>vy p\<rfloor>"
      using c by simp_all
    moreover have "real_of_int \<lfloor>vx p\<rfloor> < Scene.width scene"
      using c(2) of_int_floor_le [of "vx p"] by linarith
    moreover have "real_of_int \<lfloor>vy p\<rfloor> < Scene.height scene"
      using c(4) of_int_floor_le [of "vy p"] by linarith
    ultimately show False
      using assms by linarith
  qed
  then show ?thesis
    by (simp add: sceneGetTile_def sceneIsWall_def)
qed

theorem sceneGetTile_outside_witness:
  "sceneGetTile \<lparr>walls = [TRGBA (RGBA 1 0 0 1), TNull], width = 2, height = 1\<rparr>
     (Vector2 (- 0.5) 0.5) = None
   \<and> sceneIsWall \<lparr>walls = [TRGBA (RGBA 1 0 0 1), TNull], width = 2, height = 1\<rparr>
     (Vector2 (- 0.5) 0.5) = False"
  using sceneGetTile_outside
    [of "Vector2 (- 0.5) 0.5"
        "\<lparr>walls = [TRGBA (RGBA 1 0 0 1), TNull], width = 2, height = 1\<rparr>"]
  by simp

subsection \<open>The player stays clear of the walls\<close>

lemma floor_in_interval:
  fixes p :: real and c :: int
  shows "(\<exists>u. \<bar>u - p\<bar> \<le> 0.25 \<and> \<lfloor>u\<rfloor> = c) \<longleftrightarrow> \<lfloor>p - 0.25\<rfloor> \<le> c \<and> c \<le> \<lfloor>p + 0.25\<rfloor>"
proof
  assume "\<exists>u. \<bar>u - p\<bar> \<le> 0.25 \<and> \<lfloor>u\<rfloor> = c"
  then obtain u where u: "\<bar>u - p\<bar> \<le> 0.25" "\<lfloor>u\<rfloor> = c" by blast
  have "p - 0.25 \<le> u" "u \<le> p + 0.25" using u(1) by linarith+
  then have "\<lfloor>p - 0.25\<rfloor> \<le> \<lfloor>u\<rfloor>" "\<lfloor>u\<rfloor> \<le> \<lfloor>p + 0.25\<rfloor>"
    by (simp_all add: floor_mono)
  then show "\<lfloor>p - 0.25\<rfloor> \<le> c \<and> c \<le> \<lfloor>p + 0.25\<rfloor>" using u(2) by simp
next
  assume b: "\<lfloor>p - 0.25\<rfloor> \<le> c \<and> c \<le> \<lfloor>p + 0.25\<rfloor>"
  define u where "u = max (p - 0.25) (real_of_int c)"
  have "real_of_int c \<le> p + 0.25" using b by (simp add: le_floor_iff)
  then have "\<bar>u - p\<bar> \<le> 0.25" unfolding u_def by (simp add: max_def abs_if)
  moreover have "\<lfloor>u\<rfloor> = c"
  proof (cases "p - 0.25 \<le> real_of_int c")
    case True
    then show ?thesis unfolding u_def by (simp add: max_def)
  next
    case False
    then have "c \<le> \<lfloor>p - 0.25\<rfloor>" by (simp add: le_floor_iff)
    with b have "\<lfloor>p - 0.25\<rfloor> = c" by simp
    with False show ?thesis unfolding u_def by (simp add: max_def)
  qed
  ultimately show "\<exists>u. \<bar>u - p\<bar> \<le> 0.25 \<and> \<lfloor>u\<rfloor> = c" by blast
qed

lemma playerBoxCells_eq:
  "playerBoxCells (Vector2 px py) =
     {\<lfloor>px - 0.25\<rfloor>..\<lfloor>px + 0.25\<rfloor>} \<times> {\<lfloor>py - 0.25\<rfloor>..\<lfloor>py + 0.25\<rfloor>}"
proof -
  have "(cx, cy) \<in> playerBoxCells (Vector2 px py) \<longleftrightarrow>
        (\<exists>u. \<bar>u - px\<bar> \<le> 0.25 \<and> \<lfloor>u\<rfloor> = cx) \<and> (\<exists>v. \<bar>v - py\<bar> \<le> 0.25 \<and> \<lfloor>v\<rfloor> = cy)" for cx cy
    unfolding playerBoxCells_def by auto
  then show ?thesis
    unfolding floor_in_interval by auto
qed

text \<open>
  The cells the two loops of \<open>sceneCanRectangleFitHere\<close> visit for a box of side 0.5 are
  exactly the cells the box meets.
\<close>

lemma playerBoxFree_iff:
  "playerBoxFree scene (Vector2 px py) \<longleftrightarrow>
     sceneCanRectangleFitHere scene px py MINIMAP_PLAYER_SIZE MINIMAP_PLAYER_SIZE"
  unfolding playerBoxFree_def playerBoxCells_eq sceneCanRectangleFitHere_def
    MINIMAP_PLAYER_SIZE_def
  by (auto simp add: list_all_iff Let_def)

lemmas scene_eval =
  sceneCanRectangleFitHere_def sceneIsWall_def sceneGetTile_def sceneContains_def
  arrayGet_def upto.simps

text \<open>
  C1. For every scene, time step and setting of the four movement flags: if no cell met
  by the player's 0.5 by 0.5 box is a wall before \<open>updatePlayer\<close>, none is after it.
\<close>

theorem updatePlayer_keeps_box_free:
  assumes "playerBoxFree scene (Player.position player)"
  shows "playerBoxFree scene (Player.position (updatePlayer player scene deltaTime))"
proof -
  obtain px py where pos: "Player.position player = Vector2 px py"
    by (cases "Player.position player")
  have free: "sceneCanRectangleFitHere scene px py MINIMAP_PLAYER_SIZE MINIMAP_PLAYER_SIZE"
    using assms by (simp add: pos playerBoxFree_iff)
  show ?thesis
    using free
    by (simp add: updatePlayer_def pos playerBoxFree_iff Let_def)
qed

lemma demo_fit_start: "sceneCanRectangleFitHere demoScene 0.5 0.5 0.5 0.5"
  by (simp add: demoScene_def scene_eval)

lemma demo_fit_east: "sceneCanRectangleFitHere demoScene 1 0.5 0.5 0.5"
  by (simp add: demoScene_def scene_eval)

lemma demo_moved:
  "Player.position (updatePlayer demoPlayer demoScene 0.25) = Vector2 1 0.5"
  using demo_fit_east
  by (simp add: updatePlayer_def demoPlayer_def setPolar_def add2_def
      sub2_def PLAYER_SPEED_def MINIMAP_PLAYER_SIZE_def Let_def)

text \<open>
  The player of the example walks east for a quarter of a second, from \<open>(0.5, 0.5)\<close> to
  \<open>(1, 0.5)\<close>, next to the wall in cell \<open>(2, 0)\<close>.
\<close>

theorem updatePlayer_keeps_box_free_witness:
  "playerBoxFree demoScene (Player.position demoPlayer)
   \<and> Player.position (updatePlayer demoPlayer demoScene 0.25) = Vector2 1 0.5
   \<and> playerBoxFree demoScene (Player.position (updatePlayer demoPlayer demoScene 0.25))"
proof -
  have before: "playerBoxFree demoScene (Player.position demoPlayer)"
    using demo_fit_start
    by (simp add: demoPlayer_def playerBoxFree_iff MINIMAP_PLAYER_SIZE_def)
  from before demo_moved updatePlayer_keeps_box_free [OF before, of "0.25"]
  show ?thesis by simp
qed

subsection \<open>Throwing a bomb\<close>

lemma throwBomb_first:
  "i < length bombs \<Longrightarrow> lifetime (bombs ! i) \<le> 0 \<Longrightarrow> \<forall>j<i. 0 < lifetime (bombs ! j) \<Longrightarrow>
   throwBomb player bombs = bombs[i := 
     \<lparr>Bomb.position = Vector3 (vx (Player.position player)) (vy (Player.position player)) 0.6,
      velocity = Vector3 (cos (direction player) * 5) (sin (direction player) * 5) 2.5,
      lifetime = 2\<rparr>]"
proof (induction bombs arbitrary: i)
  case Nil
  then show ?case by simp
next
  case (Cons b bs)
  show ?case
  proof (cases i)
    case 0
    with Cons.prems show ?thesis
      by (simp add: BOMB_LIFETIME_def BOMB_THROW_VELOCITY_def copy2_def scale3_def)
  next
    case (Suc k)
    with Cons.prems have "0 < lifetime b" by auto
    moreover have "throwBomb player bs = bs[k := 
     \<lparr>Bomb.position = Vector3 (vx (Player.position player)) (vy (Player.position player)) 0.6,
      velocity = Vector3 (cos (direction player) * 5) (sin (direction player) * 5) 2.5,
      lifetime = 2\<rparr>]"
      using Cons.prems Suc by (intro Cons.IH) auto
    ultimately show ?thesis using Suc by simp
  qed
qed

lemma throwBomb_none: "\<forall>b\<in>set bombs. 0 < lifetime b \<Longrightarrow> throwBomb player bombs = bombs"
  by (induction bombs) auto

text \<open>
  C3, as the code has it. When some bomb has a lifetime that is not positive, \<open>throwBomb\<close>
  changes exactly the first such bomb: its lifetime becomes 2, its position
  \<open>(player.x, player.y, 0.6)\<close> and its velocity \<open>(cos direction, sin direction, 0.5)\<close>
  times 5, a vector that is not normalised. When every bomb has a positive lifetime the
  array is left as it is.
\<close>

theorem throwBomb_first_inactive:
  "(i < length bombs \<and> lifetime (bombs ! i) \<le> 0 \<and> (\<forall>j<i. 0 < lifetime (bombs ! j))
      \<longrightarrow> throwBomb player bombs = bombs[i :=
            \<lparr>Bomb.position = Vector3 (vx (Player.position player)) (vy (Player.position player)) 0.6,
             velocity = Vector3 (cos (direction player) * 5) (sin (direction player) * 5) 2.5,
             lifetime = 2\<rparr>])
   \<and> ((\<forall>b\<in>set bombs. 0 < lifetime b) \<longrightarrow> throwBomb player bombs = bombs)"
  using throwBomb_first [of i bombs player] throwBomb_none [of bombs player] by blast

text \<open>
  With three bombs of which the second and third are inactive, the second is thrown;
  with one active bomb nothing changes.
\<close>

theorem throwBomb_first_inactive_witness:
  "throwBomb demoPlayer demoBombs =
     [\<lparr>Bomb.position = Vector3 1 1 0.5, velocity = Vector3 1 0 0, lifetime = 1.5\<rparr>,
      \<lparr>Bomb.position = Vector3 0.5 0.5 0.6, velocity = Vector3 5 0 2.5, lifetime = 2\<rparr>,
      \<lparr>Bomb.position = Vector3 2 1 0.3, velocity = Vector3 0 1 0, lifetime = - 0.01\<rparr>]
   \<and> throwBomb demoPlayer [hd demoBombs] = [hd demoBombs]"
proof -
  have h1: "1 < length demoBombs \<and> lifetime (demoBombs ! 1) \<le> 0
            \<and> (\<forall>j<1. 0 < lifetime (demoBombs ! j))"
    by (simp add: demoBombs_def)
  have h2: "\<forall>b\<in>set [hd demoBombs]. 0 < lifetime b"
    by (simp add: demoBombs_def)
  have a: "throwBomb demoPlayer demoBombs = demoBombs[1 :=
            \<lparr>Bomb.position = Vector3 (vx (Player.position demoPlayer)) (vy (Player.position demoPlayer)) 0.6,
             velocity = Vector3 (cos (direction demoPlayer) * 5) (sin (direction demoPlayer) * 5) 2.5,
             lifetime = 2\<rparr>]"
    using throwBomb_first_inactive [of 1 demoBombs demoPlayer] h1 by blast
  have b: "throwBomb demoPlayer [hd demoBombs] = [hd demoBombs]"
    using throwBomb_first_inactive [of 0 "[hd demoBombs]" demoPlayer] h2 by blast
  show ?thesis
    by (simp only: a b) (simp add: demoBombs_def demoPlayer_def)
qed

text \<open>
  The velocity of the thrown bomb is not the unit vector of
  \<open>(cos direction, sin direction, 0.5)\<close> scaled by 5: for a player facing east it is
  \<open>(5, 0, 2.5)\<close>, of length \<open>5 \<cdot> sqrt 1.25\<close>.
\<close>

theorem throwBomb_velocity_not_unit:
  "velocity (throwBomb demoPlayer demoBombs ! 1)
     \<noteq> scale3 (norm3 (Vector3 (cos (direction demoPlayer)) (sin (direction demoPlayer)) 0.5))
          BOMB_THROW_VELOCITY"
proof -
  have s: "sqrt (5 / 4) \<noteq> 1" by simp
  have "5 / sqrt (5 / 4) \<noteq> (5::real)"
  proof
    assume "5 / sqrt (5 / 4) = (5::real)"
    then have "sqrt (5 / 4) = 1" by (simp add: field_simps)
    with s show False by simp
  qed
  then show ?thesis
    by (simp add: demoBombs_def demoPlayer_def BOMB_LIFETIME_def BOMB_THROW_VELOCITY_def
        copy2_def scale3_def norm3_def length3_def Let_def)
qed

subsection \<open>Ray casting in exact arithmetic\<close>









lemma castRayLoop_wall:
  "sceneIsWall scene (hittingCell p1 p2) \<Longrightarrow> castRayLoop scene start p1 p2 = Some p2"
  by (subst castRayLoop.simps) simp

lemma castRayLoop_step:
  "sqrDistanceTo start p1 < FAR_CLIPPING_PLANE * FAR_CLIPPING_PLANE \<Longrightarrow>
   \<not> sceneIsWall scene (hittingCell p1 p2) \<Longrightarrow>
   castRayLoop scene start p1 p2 = castRayLoop scene start p2 (rayStep p1 p2)"
  by (subst castRayLoop.simps) simp




text \<open>
  In the example scene the ray from \<open>(0.5, 0.5)\<close> through \<open>(0.6, 0.5)\<close> crosses the
  gridline \<open>x = 1\<close> and stops at \<open>(2, 0.5)\<close>, on the wall of cell \<open>(2, 0)\<close>.
\<close>

lemma demo_castRay:
  "castRay demoScene (Vector2 0.5 0.5) (Vector2 0.6 0.5) = Some (Vector2 2 0.5)"
proof -
  have w: "sceneIsWall demoScene (Vector2 2 0)" "\<not> sceneIsWall demoScene (Vector2 1 0)"
    "\<not> sceneIsWall demoScene (Vector2 0 0)"
    by (simp_all add: demoScene_def scene_eval)
  have h1: "hittingCell (Vector2 0.5 0.5) (Vector2 0.6 0.5) = Vector2 0 0"
    and h2: "hittingCell (Vector2 0.6 0.5) (Vector2 1 0.5) = Vector2 1 0"
    and h3: "hittingCell (Vector2 1 0.5) (Vector2 2 0.5) = Vector2 2 0"
    by (simp_all add: hittingCell_def EPS_def)
  have s1: "rayStep (Vector2 0.5 0.5) (Vector2 0.6 0.5) = Vector2 1 0.5"
    and s2: "rayStep (Vector2 0.6 0.5) (Vector2 1 0.5) = Vector2 2 0.5"
    by (simp_all add: rayStep_def snap_def EPS_def Let_def)
  have d: "sqrDistanceTo (Vector2 0.5 0.5) (Vector2 0.5 0.5) < FAR_CLIPPING_PLANE * FAR_CLIPPING_PLANE"
    "sqrDistanceTo (Vector2 0.5 0.5) (Vector2 0.6 0.5) < FAR_CLIPPING_PLANE * FAR_CLIPPING_PLANE"
    "sqrDistanceTo (Vector2 0.5 0.5) (Vector2 1 0.5) < FAR_CLIPPING_PLANE * FAR_CLIPPING_PLANE"
    by (simp_all add: sqrDistanceTo_def FAR_CLIPPING_PLANE_def)
  have n1: "\<not> sceneIsWall demoScene (hittingCell (Vector2 0.5 0.5) (Vector2 0.6 0.5))"
    and n2: "\<not> sceneIsWall demoScene (hittingCell (Vector2 0.6 0.5) (Vector2 1 0.5))"
    and n3: "sceneIsWall demoScene (hittingCell (Vector2 1 0.5) (Vector2 2 0.5))"
    unfolding h1 h2 h3 by (rule w)+
  have "castRay demoScene (Vector2 0.5 0.5) (Vector2 0.6 0.5)
          = castRayLoop demoScene (Vector2 0.5 0.5) (Vector2 0.6 0.5) (Vector2 1 0.5)"
    unfolding castRay_def using castRayLoop_step [OF d(1) n1] by (simp only: s1)
  also have "\<dots> = castRayLoop demoScene (Vector2 0.5 0.5) (Vector2 1 0.5) (Vector2 2 0.5)"
    using castRayLoop_step [OF d(2) n2] by (simp only: s2)
  also have "\<dots> = Some (Vector2 2 0.5)"
    using n3 by (rule castRayLoop_wall)
  finally show ?thesis .
qed

subsection \<open>Ray casting in double arithmetic\<close>

text \<open>
  The double written \<open>1e-6\<close> is \<open>4722366482869645 / 2 ^ 72\<close>, and
  \<open>2 ^ 72 = 4722366482869645213696\<close>.
\<close>

lemma rd_EPS: "roundDouble EPS = 4722366482869645 / 4722366482869645213696"
  unfolding EPS_def
  using roundDouble_eval [of "- 20" "1 / 1000000"]
  by (simp add: pow2_def roundHalfEven_def Let_def)

lemma rd_exact:
  "roundDouble (4722366482869645 / 4722366482869645213696)
     = 4722366482869645 / 4722366482869645213696"
  "roundDouble (1 / 2) = 1 / 2" "roundDouble (1 / 4) = 1 / 4" "roundDouble (1 / 16) = 1 / 16"
  "roundDouble 100 = 100" "roundDouble 17179869185 = 17179869185"
  using roundDouble_eval [of "- 20" "4722366482869645 / 4722366482869645213696"]
    roundDouble_eval [of "- 1" "1 / 2"] roundDouble_eval [of "- 2" "1 / 4"]
    roundDouble_eval [of "- 4" "1 / 16"] roundDouble_eval [of 6 100]
    roundDouble_eval [of 34 "17179869185"]
  by (simp_all add: pow2_def roundHalfEven_def Let_def)

text \<open>
  Close to \<open>1\<close> the doubles are fine enough for \<open>EPS\<close> to count: the double \<open>1.000001\<close>
  less \<open>EPS\<close> is the double just below \<open>1\<close>, and \<open>snap\<close> moves down to \<open>0\<close>.
\<close>

lemma snapD_below_one: "snapD (roundDouble 1.000001) (- 1) = 0"
proof -
  have a: "roundDouble 1.000001 = 4503604130970123 / 2 ^ 52"
    using roundDouble_eval [of 0 "1.000001"]
    by (simp add: pow2_def roundHalfEven_def Let_def)
  have m: "mulD (sgn (- 1)) (roundDouble EPS) = - (4722366482869645 / 2 ^ 72)"
    unfolding mulD_def rd_EPS
    using roundDouble_eval [of "- 20" "- (4722366482869645 / 2 ^ 72)"]
    by (simp add: pow2_def roundHalfEven_def Let_def)
  have b: "addD (4503604130970123 / 2 ^ 52) (- (4722366482869645 / 2 ^ 72))
             = 9007199254740991 / 2 ^ 53"
    unfolding addD_def
    using roundDouble_eval [of "- 1" "4503604130970123 / 2 ^ 52 + - (4722366482869645 / 2 ^ 72)"]
    by (simp add: pow2_def roundHalfEven_def Let_def)
  have "snapD (roundDouble 1.000001) (- 1)
          = real_of_int \<lfloor>addD (4503604130970123 / 2 ^ 52) (- (4722366482869645 / 2 ^ 72))\<rfloor>"
    unfolding snapD_def a m by simp
  also have "\<dots> = 0" unfolding b by (simp add: floor_eq_iff)
  finally show ?thesis .
qed

text \<open>
  From \<open>2 ^ 34 = 17179869184\<close> on, two neighbouring doubles are \<open>2 ^ - 18\<close> apart, more than
  twice \<open>EPS\<close>: adding \<open>EPS\<close> to a double there gives the same double back.
\<close>

lemma rd_absorbed:
  "roundDouble (17179869184.75 + 4722366482869645 / 2 ^ 72) = 17179869184.75"
  "roundDouble (17179869185 + 4722366482869645 / 2 ^ 72) = 17179869185"
  using roundDouble_eval [of 34 "17179869184.75 + 4722366482869645 / 2 ^ 72"]
    roundDouble_eval [of 34 "17179869185 + 4722366482869645 / 2 ^ 72"]
  by (simp_all add: pow2_def roundHalfEven_def Let_def)

lemma snapped:
  "\<lfloor>roundDouble (17179869184.75 + 4722366482869645 / 2 ^ 72)\<rfloor> = 17179869184"
  "\<lceil>roundDouble (17179869184.75 + 4722366482869645 / 2 ^ 72)\<rceil> = 17179869185"
  "\<lfloor>roundDouble (17179869185 + 4722366482869645 / 2 ^ 72)\<rfloor> = 17179869185"
  "\<lceil>roundDouble (17179869185 + 4722366482869645 / 2 ^ 72)\<rceil> = 17179869185"
  unfolding rd_absorbed by (simp_all add: floor_eq_iff ceiling_eq_iff)

lemmas dbl_ops = addD_def subD_def mulD_def divD_def sqrDistanceToD_def snapD_def
  hittingCellD_def rayStepD_def Let_def FAR_CLIPPING_PLANE_def

lemma far_hit1:
  "hittingCellD (Vector2 17179869184.5 0.5) (Vector2 17179869184.75 0.5) = Vector2 17179869184 0"
  using snapped by (simp add: dbl_ops rd_EPS rd_exact roundDouble_def [of 0])

lemma far_step1:
  "rayStepD (Vector2 17179869184.5 0.5) (Vector2 17179869184.75 0.5) = Vector2 17179869185 0.5"
  using snapped by (simp add: dbl_ops rd_EPS rd_exact roundDouble_def [of 0])

lemma far_hit2:
  "hittingCellD (Vector2 17179869184.75 0.5) (Vector2 17179869185 0.5) = Vector2 17179869185 0"
  using snapped by (simp add: dbl_ops rd_EPS rd_exact roundDouble_def [of 0])

lemma far_step2:
  "rayStepD (Vector2 17179869184.75 0.5) (Vector2 17179869185 0.5) = Vector2 17179869185 0.5"
  using snapped by (simp add: dbl_ops rd_EPS rd_exact roundDouble_def [of 0])

lemma far_hit3:
  "hittingCellD (Vector2 17179869185 0.5) (Vector2 17179869185 0.5) = Vector2 17179869185 0"
  using snapped by (simp add: dbl_ops rd_EPS rd_exact roundDouble_def [of 0])

lemma far_step3:
  "rayStepD (Vector2 17179869185 0.5) (Vector2 17179869185 0.5) = Vector2 17179869185 0.5"
  using snapped by (simp add: dbl_ops rd_EPS rd_exact roundDouble_def [of 0])

lemma far_near:
  "sqrDistanceToD (Vector2 17179869184.5 0.5) (Vector2 17179869184.5 0.5)
     < mulD FAR_CLIPPING_PLANE FAR_CLIPPING_PLANE"
  "sqrDistanceToD (Vector2 17179869184.5 0.5) (Vector2 17179869184.75 0.5)
     < mulD FAR_CLIPPING_PLANE FAR_CLIPPING_PLANE"
  "sqrDistanceToD (Vector2 17179869184.5 0.5) (Vector2 17179869185 0.5)
     < mulD FAR_CLIPPING_PLANE FAR_CLIPPING_PLANE"
  by (simp_all add: dbl_ops rd_EPS rd_exact roundDouble_def [of 0])

lemma far_free:
  "\<not> sceneIsWall demoScene (Vector2 17179869184 0)"
  "\<not> sceneIsWall demoScene (Vector2 17179869185 0)"
  by (simp_all add: sceneIsWall_def sceneGetTile_def sceneContains_def demoScene_def)

lemma castRayLoopD_step:
  assumes "sqrDistanceToD start p1 < mulD FAR_CLIPPING_PLANE FAR_CLIPPING_PLANE"
    and "\<not> sceneIsWall scene (hittingCellD p1 p2)"
  shows "castRayLoopD scene start p1 p2 = castRayLoopD scene start p2 (rayStepD p1 p2)"
  using assms by (subst castRayLoopD.simps) simp

text \<open>
  A state of the loop that is short of the far plane, away from the walls, and that
  \<open>rayStep\<close> does not move, comes back for ever: the loop does not return.
\<close>

lemma castRayLoopD_stuck:
  assumes near: "sqrDistanceToD start p < mulD FAR_CLIPPING_PLANE FAR_CLIPPING_PLANE"
    and free: "\<not> sceneIsWall scene (hittingCellD p p)"
    and same: "rayStepD p p = p"
  shows "castRayLoopD scene start p p = None"
proof (rule ccontr)
  assume "castRayLoopD scene start p p \<noteq> None"
  then obtain y where y: "castRayLoopD scene start p p = Some y" by auto
  have "\<not> (scene = scene \<and> start = start \<and> p = p \<and> p = p)"
  proof (rule castRayLoopD.raw_induct
      [where P = "\<lambda>sc st a b r. \<not> (sc = scene \<and> st = start \<and> a = p \<and> b = p)", OF _ y])
    fix f sc st a b r
    assume IH: "\<And>sc st a b r. f sc st a b = Some r \<Longrightarrow>
                  \<not> (sc = scene \<and> st = start \<and> a = p \<and> b = p)"
      and eq: "(if sqrDistanceToD st a < mulD FAR_CLIPPING_PLANE FAR_CLIPPING_PLANE
                then if sceneIsWall sc (hittingCellD a b) then Some b
                     else f sc st b (rayStepD a b)
                else Some b) = Some r"
    show "\<not> (sc = scene \<and> st = start \<and> a = p \<and> b = p)"
    proof
      assume e: "sc = scene \<and> st = start \<and> a = p \<and> b = p"
      with eq near free same have "f scene start p p = Some r" by simp
      from IH [OF this] show False by simp
    qed
  qed
  then show False by simp
qed

text \<open>
  C7 fails on the code far from the origin. For two distinct points \<open>castRay\<close> is to
  return, each \<open>rayStep\<close> moving the ray point strictly forward; in the engine's double
  arithmetic it does not. Take the example scene and the ray from
  \<open>(17179869184.5, 0.5)\<close> through \<open>(17179869184.75, 0.5)\<close>. The first \<open>rayStep\<close> reaches
  the gridline \<open>x = 17179869185\<close>. The second, called with the distinct points
  \<open>(17179869184.75, 0.5)\<close> and \<open>(17179869185, 0.5)\<close>, returns \<open>(17179869185, 0.5)\<close> again,
  since \<open>17179869185 + EPS\<close> is rounded to \<open>17179869185\<close>. No cell there is a wall and the
  start is \<open>0.5\<close> away, so the loop goes on with the same two points for ever: \<open>castRay\<close>
  does not return (\<open>None\<close>).
\<close>

theorem castRay_never_returns_far_east:
  "Vector2 17179869184.5 0.5 \<noteq> Vector2 17179869184.75 0.5
   \<and> Vector2 17179869184.75 0.5 \<noteq> Vector2 17179869185 0.5
   \<and> rayStepD (Vector2 17179869184.75 0.5) (Vector2 17179869185 0.5) = Vector2 17179869185 0.5
   \<and> castRayD demoScene (Vector2 17179869184.5 0.5) (Vector2 17179869184.75 0.5) = None"
proof -
  let ?a = "Vector2 17179869184.5 0.5"
  let ?b = "Vector2 17179869184.75 0.5"
  let ?c = "Vector2 17179869185 0.5"
  have w1: "\<not> sceneIsWall demoScene (hittingCellD ?a ?b)"
    unfolding far_hit1 by (rule far_free(1))
  have w2: "\<not> sceneIsWall demoScene (hittingCellD ?b ?c)"
    unfolding far_hit2 by (rule far_free(2))
  have w3: "\<not> sceneIsWall demoScene (hittingCellD ?c ?c)"
    unfolding far_hit3 by (rule far_free(2))
  have "castRayD demoScene ?a ?b = castRayLoopD demoScene ?a ?a ?b"
    by (simp only: castRayD_def)
  also have "\<dots> = castRayLoopD demoScene ?a ?b ?c"
    using castRayLoopD_step [OF far_near(1) w1] unfolding far_step1 .
  also have "\<dots> = castRayLoopD demoScene ?a ?c ?c"
    using castRayLoopD_step [OF far_near(2) w2] unfolding far_step2 .
  also have "\<dots> = None"
    by (rule castRayLoopD_stuck [OF far_near(3) w3 far_step3])
  finally have run: "castRayD demoScene ?a ?b = None" .
  have ne: "?a \<noteq> ?b" "?b \<noteq> ?c" by simp_all
  from ne far_step2 run show ?thesis by (simp only: simp_thms)
qed

subsection \<open>Shading of the walls\<close>

lemma shade_walls:
  "\<not> sceneIsWall shadeScene (Vector2 0 1)"
  "sceneIsWall shadeScene (Vector2 1 0)"
  "sceneIsWall shadeScene (Vector2 1 1)"
  "sceneGetTile shadeScene (Vector2 1 0) = Some (TRGBA (RGBA 0.2 0.3 0.1 1))"
  "sceneGetTile shadeScene (Vector2 1 1)
     = Some (TImageData \<lparr>ImageData.width = 1, ImageData.height = 1, data = [100, 50, 200, 255]\<rparr>)"
  by (simp_all add: shadeScene_def scene_eval)

lemma shade_castRay0:
  "castRay shadeScene (Vector2 0.5 1.5) (Vector2 0.6 1.4) = Some (Vector2 1 1)"
proof -
  have h1: "hittingCell (Vector2 0.5 1.5) (Vector2 0.6 1.4) = Vector2 0 1"
    and h2: "hittingCell (Vector2 0.6 1.4) (Vector2 1 1) = Vector2 1 0"
    by (simp_all add: hittingCell_def EPS_def)
  have s1: "rayStep (Vector2 0.5 1.5) (Vector2 0.6 1.4) = Vector2 1 1"
    by (simp add: rayStep_def snap_def EPS_def Let_def sqrDistanceTo_def)
  have d: "sqrDistanceTo (Vector2 0.5 1.5) (Vector2 0.5 1.5) < FAR_CLIPPING_PLANE * FAR_CLIPPING_PLANE"
    "sqrDistanceTo (Vector2 0.5 1.5) (Vector2 0.6 1.4) < FAR_CLIPPING_PLANE * FAR_CLIPPING_PLANE"
    by (simp_all add: sqrDistanceTo_def FAR_CLIPPING_PLANE_def)
  have n1: "\<not> sceneIsWall shadeScene (hittingCell (Vector2 0.5 1.5) (Vector2 0.6 1.4))"
    and n2: "sceneIsWall shadeScene (hittingCell (Vector2 0.6 1.4) (Vector2 1 1))"
    unfolding h1 h2 by (rule shade_walls)+
  have "castRay shadeScene (Vector2 0.5 1.5) (Vector2 0.6 1.4)
          = castRayLoop shadeScene (Vector2 0.5 1.5) (Vector2 0.6 1.4) (Vector2 1 1)"
    unfolding castRay_def using castRayLoop_step [OF d(1) n1] by (simp only: s1)
  also have "\<dots> = Some (Vector2 1 1)"
    using n2 by (rule castRayLoop_wall)
  finally show ?thesis .
qed

lemma shade_castRay1:
  "castRay shadeScene (Vector2 0.5 1.5) (Vector2 0.6 1.5) = Some (Vector2 1 1.5)"
proof -
  have h1: "hittingCell (Vector2 0.5 1.5) (Vector2 0.6 1.5) = Vector2 0 1"
    and h2: "hittingCell (Vector2 0.6 1.5) (Vector2 1 1.5) = Vector2 1 1"
    by (simp_all add: hittingCell_def EPS_def)
  have s1: "rayStep (Vector2 0.5 1.5) (Vector2 0.6 1.5) = Vector2 1 1.5"
    by (simp add: rayStep_def snap_def EPS_def Let_def sqrDistanceTo_def)
  have d: "sqrDistanceTo (Vector2 0.5 1.5) (Vector2 0.5 1.5) < FAR_CLIPPING_PLANE * FAR_CLIPPING_PLANE"
    by (simp_all add: sqrDistanceTo_def FAR_CLIPPING_PLANE_def)
  have n1: "\<not> sceneIsWall shadeScene (hittingCell (Vector2 0.5 1.5) (Vector2 0.6 1.5))"
    and n2: "sceneIsWall shadeScene (hittingCell (Vector2 0.6 1.5) (Vector2 1 1.5))"
    unfolding h1 h2 by (rule shade_walls)+
  have "castRay shadeScene (Vector2 0.5 1.5) (Vector2 0.6 1.5)
          = castRayLoop shadeScene (Vector2 0.5 1.5) (Vector2 0.6 1.5) (Vector2 1 1.5)"
    unfolding castRay_def using castRayLoop_step [OF d(1) n1] by (simp only: s1)
  also have "\<dots> = Some (Vector2 1 1.5)"
    using n2 by (rule castRayLoop_wall)
  finally show ?thesis .
qed


lemma floor_minus_one_real: "\<lfloor>- 1 :: real\<rfloor> = - 1"
  using floor_uminus_of_int [of 1, where ?'a = real] by simp

lemma toUint8Clamped_values:
  "toUint8Clamped 204 = 204" "toUint8Clamped 306 = 255" "toUint8Clamped 102 = 102"
  "toUint8Clamped 100 = 100" "toUint8Clamped 50 = 50" "toUint8Clamped 200 = 200"
  "toUint8Clamped 51 = 51"
  by (simp_all add: toUint8Clamped_def)

lemma shade_solidStrip:
  "solidStrip 2 2 0 (RGBA 0.2 0.3 0.1 1) 0.5 (replicate 16 255)
     = [204, 255, 102, 255, 255, 255, 255, 255, 204, 255, 102, 255, 255, 255, 255, 255]"
  apply (simp add: solidStrip_def Let_def floor_minus_one_real)
  apply (simp add: upto.simps)
  apply (simp add: u8Set_def toUint8Clamped_values)
  apply (simp add: numeral_eq_Suc)
  done

lemma shade_texturedStrip:
  "texturedStrip 2 2 1 \<lparr>ImageData.width = 1, ImageData.height = 1, data = [100, 50, 200, 255]\<rparr>
       (Vector2 1 1.5) (Vector2 1 1) 0.5
       [204, 255, 102, 255, 255, 255, 255, 255, 204, 255, 102, 255, 255, 255, 255, 255]
     = [204, 255, 102, 255, 100, 50, 200, 255, 204, 255, 102, 255, 100, 50, 200, 255]"
  apply (simp add: texturedStrip_def Let_def sub2_def EPS_def floor_minus_one_real)
  apply (simp add: upto.simps)
  apply (simp add: u8Set_def u8Get_def toUint8Clamped_values)
  done


lemma shade_col0:
  "renderWallColumn shadeDisplay shadePlayer shadeScene 0 = Some shadeColumn0"
proof -
  have ray: "castRay shadeScene (Player.position shadePlayer)
               (lerp (fovLeft shadePlayer) (fovRight shadePlayer) 0)
             = Some (Vector2 1 1)"
    using shade_castRay0 by (simp add: shadePlayer_def shadeDisplay_def lerp_def)
  have cell: "sceneGetTile shadeScene (hittingCell (Player.position shadePlayer) (Vector2 1 1))
              = Some (TRGBA (RGBA 0.2 0.3 0.1 1))"
    using shade_walls(4) by (simp add: shadePlayer_def hittingCell_def EPS_def)
  have z: "dot (sub2 (Vector2 1 1) (Player.position shadePlayer))
               (setPolar (direction shadePlayer) 1) = 0.5"
    by (simp add: shadePlayer_def dot_def sub2_def setPolar_def)
  show ?thesis
    apply (simp add: renderWallColumn_def Let_def ray cell z)
    using shade_solidStrip
    apply (simp add: shadeDisplay_def shadeColumn0_def setData_def)
    done
qed


lemma shadeColumn0_size:
  "ImageData.width (backImageData shadeColumn0) = 2"
  "ImageData.height (backImageData shadeColumn0) = 2"
  "ImageData.width (backImageData shadeDisplay) = 2"
  by (simp_all add: shadeColumn0_def shadeDisplay_def setData_def)

lemma shade_col1:
  "renderWallColumn shadeColumn0 shadePlayer shadeScene 1 = Some shadeColumn1"
proof -
  have ray: "castRay shadeScene (Player.position shadePlayer)
               (lerp (fovLeft shadePlayer) (fovRight shadePlayer) (1 / 2))
             = Some (Vector2 1 (3 / 2))"
    using shade_castRay1 by (simp add: shadePlayer_def shadeDisplay_def lerp_def)
  have cell: "sceneGetTile shadeScene (hittingCell (Player.position shadePlayer) (Vector2 1 (3 / 2)))
              = Some (TImageData \<lparr>ImageData.width = 1, ImageData.height = 1, data = [100, 50, 200, 255]\<rparr>)"
    and c: "hittingCell (Player.position shadePlayer) (Vector2 1 (3 / 2)) = Vector2 1 1"
    using shade_walls(5) by (simp_all add: shadePlayer_def hittingCell_def EPS_def)
  have z: "dot (sub2 (Vector2 1 (3 / 2)) (Player.position shadePlayer))
               (setPolar (direction shadePlayer) 1) = 0.5"
    by (simp add: shadePlayer_def dot_def sub2_def setPolar_def)
  show ?thesis
    apply (simp add: renderWallColumn_def Let_def shadeColumn0_size)
    apply (simp add: ray shade_walls z c Let_def)
    using shade_texturedStrip
    apply (simp add: shadeColumn0_def shadeColumn1_def setData_def shadeDisplay_def)
    done
qed

text \<open>
  C2 fails on the code for a wall of one colour. In the second example both columns have
  \<open>zBuffer[x] = 0.5\<close>, so \<open>min(2 / zBuffer[x], 1) = 1\<close>. The textured wall of column 1 is
  drawn with its texel \<open>(100, 50, 200)\<close> unchanged, that is with the factor 1; the wall of
  colour \<open>(0.2, 0.3, 0.1)\<close> of column 0 is drawn as \<open>(204, 255, 102)\<close>, that is with the
  factor 4 (\<open>0.2 \<cdot> 4 \<cdot> 255 = 204\<close>, and 306 is cut to 255 by the array), where the factor 1
  gives 51 for the red byte.
\<close>

theorem renderWalls_solid_shadow_unclamped:
  "map_option (\<lambda>d. (data (backImageData d), zBuffer d 0, zBuffer d 1))
     (renderWalls shadeDisplay shadePlayer shadeScene)
   = Some ([204, 255, 102, 255, 100, 50, 200, 255, 204, 255, 102, 255, 100, 50, 200, 255],
           Some 0.5, Some 0.5)
   \<and> toUint8Clamped (red (RGBA 0.2 0.3 0.1 1) * min (2 / 0.5) 1 * 255) = 51"
proof -
  have "renderWalls shadeDisplay shadePlayer shadeScene = Some shadeColumn1"
    using shade_col0 shade_col1
    by (simp add: renderWalls_def shadeColumn0_size upt_rec)
  then show ?thesis
    by (simp add: shadeColumn1_def shadeColumn0_def setData_def toUint8Clamped_values)
qed

subsection \<open>Sprites\<close>


lemma renderSprite_width:
  "ImageData.width (backImageData (renderSprite display sprite)) = ImageData.width (backImageData display)"
  by (simp add: renderSprite_def setData_def Let_def split: option.split Image.split)


lemma cullSprites_sorted:
  assumes "cullSprites player spritePool = Some (spritePool', visibleSprites)"
  shows "sorted_wrt (\<lambda>a b. pdist b \<le> pdist a) visibleSprites"
proof -
  from assms obtain vs where vs: "visibleSprites = sort_key (\<lambda>a. - pdist a) vs"
    by (auto simp add: cullSprites_def Let_def split: if_splits)
  have "sorted (map (\<lambda>a. - pdist a) visibleSprites)"
    unfolding vs by (rule sorted_sort_key)
  then show ?thesis by (simp add: sorted_map)
qed

lemma u8Get_u8Set_other: "j \<noteq> i \<Longrightarrow> u8Get (u8Set d i v) j = u8Get d j"
  by (auto simp add: u8Get_def u8Set_def nth_list_update)

lemma u8Get_blend_other: "j \<noteq> i \<Longrightarrow> u8Get (blend d i s a) j = u8Get d j"
  by (simp add: blend_def u8Get_u8Set_other)

lemma other_column_index:
  fixes y y' x x' w c c' :: int
  assumes "0 \<le> x" "x < w" "0 \<le> x'" "x' < w" "x' \<noteq> x" "0 \<le> c" "c < 4" "0 \<le> c'" "c' < 4"
  shows "(y * w + x) * 4 + c \<noteq> (y' * w + x') * 4 + c'"
proof
  assume e: "(y * w + x) * 4 + c = (y' * w + x') * 4 + c'"
  define A where "A = y * w + x"
  define B where "B = y' * w + x'"
  from e have "A * 4 + c = B * 4 + c'" by (simp add: A_def B_def)
  with assms have "A = B" by linarith
  then have "(y * w + x) mod w = (y' * w + x') mod w" by (simp add: A_def B_def)
  then have "x = x'" using assms by simp
  with assms show False by simp
qed

lemma sameColumn_refl: "sameColumn w x d d"
  by (simp add: sameColumn_def)

lemma sameColumn_blend3:
  assumes "x < w" "0 \<le> x'" "x' < int w" "x' \<noteq> int x" and s: "sameColumn w x d d'"
  shows "sameColumn w x d
     (blend (blend (blend d' ((y' * int w + x') * 4 + 0) s0 a0)
                   ((y' * int w + x') * 4 + 1) s1 a1)
            ((y' * int w + x') * 4 + 2) s2 a2)"
  unfolding sameColumn_def
proof (intro allI impI)
  fix y c :: int
  assume c: "0 \<le> c \<and> c < 4"
  have ne: "(y * int w + int x) * 4 + c \<noteq> (y' * int w + x') * 4 + k" if "0 \<le> k" "k < 4" for k
    using other_column_index [of "int x" "int w" x' c k y y'] assms(1-4) c that by simp
  show "u8Get (blend (blend (blend d' ((y' * int w + x') * 4 + 0) s0 a0)
                   ((y' * int w + x') * 4 + 1) s1 a1)
            ((y' * int w + x') * 4 + 2) s2 a2) ((y * int w + int x) * 4 + c)
        = u8Get d ((y * int w + int x) * 4 + c)"
    using ne [of 0] ne [of 1] ne [of 2] s c
    by (simp add: u8Get_blend_other sameColumn_def)
qed

lemma fold_invariant:
  assumes "P s" and "\<And>a s. a \<in> set xs \<Longrightarrow> P s \<Longrightarrow> P (f a s)"
  shows "P (fold f xs s)"
  using assms by (induction xs arbitrary: s) simp_all


lemma column_loops:
  assumes xw: "x < w" and occ: "\<not> visibleAt (int x)"
    and step: "\<And>x' y' dest. 0 \<le> x' \<Longrightarrow> x' < int w \<Longrightarrow> x' \<noteq> int x \<Longrightarrow>
                 sameColumn w x d dest \<Longrightarrow> sameColumn w x d (body x' y' dest)"
    and start: "sameColumn w x d d0"
  shows "sameColumn w x d
           (fold (\<lambda>x' dest. if visibleAt x' then fold (body x') ys dest else dest)
              [max 0 x1..min (int w - 1) x2] d0)"
proof (rule fold_invariant [where P = "sameColumn w x d"])
  show "sameColumn w x d d0" by (rule start)
next
  fix x' dest
  assume x': "x' \<in> set [max 0 x1..min (int w - 1) x2]" and inv: "sameColumn w x d dest"
  show "sameColumn w x d (if visibleAt x' then fold (body x') ys dest else dest)"
  proof (cases "visibleAt x'")
    case False
    with inv show ?thesis by simp
  next
    case True
    with occ have ne: "x' \<noteq> int x" by auto
    from x' have r: "0 \<le> x'" "x' < int w" by simp_all
    have "sameColumn w x d (fold (body x') ys dest)"
      by (rule fold_invariant [where P = "sameColumn w x d"]) (simp_all add: inv step r ne)
    with True show ?thesis by simp
  qed
qed

lemma renderSprite_sameColumn:
  assumes xw: "x < ImageData.width (backImageData display)"
    and z: "zBuffer display x = Some zx" and occ: "zx \<le> pdist sprite"
  shows "sameColumn (ImageData.width (backImageData display)) x (data (backImageData display))
           (data (backImageData (renderSprite display sprite)))"
proof (cases "spriteT sprite")
  case None
  then show ?thesis by (simp add: renderSprite_def sameColumn_refl)
next
  case (Some t)
  show ?thesis
  proof (cases "pdist sprite = 0")
    case True
    with Some show ?thesis by (simp add: renderSprite_def sameColumn_refl)
  next
    case False
    have hidden: "\<not> (case zBuffer display (nat (int x)) of None \<Rightarrow> False
                        | Some zx \<Rightarrow> pdist sprite < zx)"
      using z occ by simp
    show ?thesis
    proof (cases "image sprite")
      case (OfImageData img)
      show ?thesis
        using Some False OfImageData
        apply (simp add: renderSprite_def setData_def Let_def)
        apply (rule column_loops [OF xw])
          apply (rule hidden)
         apply (simp only: Let_def)
         apply (rule sameColumn_blend3 [OF xw]; assumption)
        apply (rule sameColumn_refl)
        done
    next
      case (OfRGBA colour)
      show ?thesis
        using Some False OfRGBA
        apply (simp add: renderSprite_def setData_def Let_def)
        apply (rule column_loops [OF xw])
          apply (rule hidden)
         apply (simp only: Let_def)
         apply (rule sameColumn_blend3 [OF xw]; assumption)
        apply (rule sameColumn_refl)
        done
    qed
  qed
qed

text \<open>
  C5. Drawing a sprite leaves every pixel of a column \<open>x\<close> of the screen as it was when
  \<open>zBuffer[x] \<le> pdist\<close>, equality included: a column is drawn only for
  \<open>pdist < zBuffer[x]\<close>.
\<close>

theorem renderSprite_occluded_column:
  assumes "x < ImageData.width (backImageData display)"
    and "zBuffer display x = Some zx" and "zx \<le> pdist sprite"
  shows "pixel (backImageData (renderSprite display sprite)) x y = pixel (backImageData display) x y"
proof -
  have same: "u8Get (data (backImageData (renderSprite display sprite)))
           ((int y * int (ImageData.width (backImageData display)) + int x) * 4 + c)
        = u8Get (data (backImageData display))
           ((int y * int (ImageData.width (backImageData display)) + int x) * 4 + c)"
    if "0 \<le> c" "c < 4" for c
    using renderSprite_sameColumn [OF assms] that unfolding sameColumn_def by blast
  from same [of 0] same [of 1] same [of 2] same [of 3] show ?thesis
    by (simp add: pixel_def renderSprite_width)
qed


lemma HALF_FOV_COS_eq: "HALF_FOV_COS = sqrt 2 / 2"
  using cos_45 by (simp add: HALF_FOV_COS_def FOV_def)

lemma HALF_FOV_COS_bounds: "HALF_FOV_COS \<le> 4 / 5" "HALF_FOV_COS \<le> 1"
proof -
  have "sqrt 2 \<le> 8 / 5" by (rule real_le_lsqrt) (simp_all add: power2_eq_square)
  then show "HALF_FOV_COS \<le> 4 / 5" "HALF_FOV_COS \<le> 1"
    by (simp_all add: HALF_FOV_COS_eq)
qed

lemma cull_demo:
  "\<exists>pool visible. cullSprites shadePlayer cullPool = Some (pool, visible)
     \<and> map pdist visible = [1, 0.8, 0.8]
     \<and> map Sprite.position visible = [Vector2 1.5 1.5, Vector2 1.3 2.1, Vector2 1.3 0.9]"
  using HALF_FOV_COS_bounds
  by (simp add: cullSprites_def cullPool_def shadePlayer_def cullSprite_def Let_def
      setPolar_def sub2_def length2_def sqrLength2_def dot_def
      NEAR_CLIPPING_PLANE_def FAR_CLIPPING_PLANE_def)


text \<open>
  C6, as the code has it. The sprites \<open>cullSprites\<close> returns are sorted by \<open>pdist\<close>, the
  farthest first, and \<open>renderSprites\<close> draws them in that order: a sprite drawn before
  another is at least as far away.
\<close>

theorem cullSprites_backToFront:
  assumes "cullSprites player spritePool = Some (spritePool', visibleSprites)"
  shows "backToFront visibleSprites"
  using cullSprites_sorted [OF assms] by (simp add: backToFront_def)

theorem cullSprites_backToFront_witness:
  "cullSprites shadePlayer cullPool \<noteq> None
   \<and> map pdist (snd (the (cullSprites shadePlayer cullPool))) = [1, 0.8, 0.8]
   \<and> backToFront (snd (the (cullSprites shadePlayer cullPool)))"
proof -
  from cull_demo obtain pool visible where
    c: "cullSprites shadePlayer cullPool = Some (pool, visible)"
    and p: "map pdist visible = [1, 0.8, 0.8]" by (elim exE conjE)
  from cullSprites_backToFront [OF c] c p show ?thesis by simp
qed

text \<open>
  The order is not strict: two of the three sprites of the example have the depth 0.8.
\<close>

theorem cullSprites_not_strictly_backToFront:
  "cullSprites shadePlayer cullPool \<noteq> None
   \<and> \<not> strictlyBackToFront (snd (the (cullSprites shadePlayer cullPool)))"
proof -
  from cull_demo obtain pool visible where
    c: "cullSprites shadePlayer cullPool = Some (pool, visible)"
    and p: "map pdist visible = [1, 0.8, 0.8]" by (elim exE conjE)
  from p obtain a b c where "visible = [a, b, c]" "pdist b = 0.8" "pdist c = 0.8"
    by auto
  then have "\<not> strictlyBackToFront visible"
    by (simp add: strictlyBackToFront_def)
  with c show ?thesis by simp
qed

lemma toUint8Clamped_sprite:
  "toUint8Clamped 255 = 255" "toUint8Clamped (255 / 2) = 128" "toUint8Clamped (153 / 4) = 38"
  by (simp_all add: toUint8Clamped_def)

lemma demo_renderSprite:
  "data (backImageData (renderSprite spriteDisplay demoSprite))
     = replicate 20 0 @ [255, 128, 38, 0] @ replicate 8 0"
  apply (simp add: renderSprite_def demoSprite_def spriteDisplay_def Let_def setData_def)
  apply (simp add: upto.simps)
  apply (simp add: blend_def u8Get_def u8Set_def toUint8Clamped_sprite)
  apply (simp add: numeral_eq_Suc)
  done

text \<open>
  The sprite of the example, at depth 0.8, is not drawn in column 0, where the wall is at
  depth 0.5, and is drawn in column 1.
\<close>

theorem renderSprite_occluded_column_witness:
  "0 < ImageData.width (backImageData spriteDisplay)
   \<and> zBuffer spriteDisplay 0 = Some 0.5 \<and> 0.5 \<le> pdist demoSprite
   \<and> pixel (backImageData (renderSprite spriteDisplay demoSprite)) 0 1
       = pixel (backImageData spriteDisplay) 0 1
   \<and> data (backImageData (renderSprite spriteDisplay demoSprite))
       = replicate 20 0 @ [255, 128, 38, 0] @ replicate 8 0"
proof -
  have w: "0 < ImageData.width (backImageData spriteDisplay)"
    and z: "zBuffer spriteDisplay 0 = Some 0.5"
    and p: "0.5 \<le> pdist demoSprite"
    by (simp_all add: spriteDisplay_def demoSprite_def)
  from renderSprite_occluded_column [OF w z p, of 1] w z p demo_renderSprite
  show ?thesis by simp
qed

subsection \<open>A frame returns\<close>















subsection \<open>Frames with no time step\<close>
















end
